theory Spec2Isabelle
  imports Main "HOL-Library.Word"
begin

unbundle bit_operations_syntax

section \<open>POTA: the update check of the Please Over The Air library\<close>

text \<open>
  A shallow embedding of \<^verbatim>\<open>src/POTA.h\<close> and \<^verbatim>\<open>src/POTA.cpp\<close>. C strings are
  \<open>string\<close>s without the terminating NUL; a character buffer is a \<open>string\<close> that
  holds every byte of the array, terminator included; a pointer that may be null is an
  \<open>option\<close>. Library code outside the repository (the HMAC of mbedTLS or BearSSL, the
  ArduinoJson parser, the TLS client, the Wi-Fi driver) is a parameter of the model.
\<close>

subsection \<open>Error codes (POTA.h, lines 52 to 81)\<close>

datatype POTAError =
    SUCCESS
  | PARAMETER_INVALID_SSID
  | PARAMETER_INVALID_PASSWORD
  | PARAMETER_INVALID_DEVICETYPE
  | PARAMETER_INVALID_FWVERSION
  | PARAMETER_INVALID_AUTHTOKEN
  | PARAMETER_INVALID_SECRET
  | PARAMETER_INVALID_OUTPUT
  | PARAMETER_INVALID_OTA_URL
  | WIFI_CONNECT_FAILED
  | CLIENT_NOT_INITIALIZED
  | CONNECTION_FAILED
  | JSON_PARSE_FAILED
  | TOKEN_GENERATION_FAILED
  | TOKEN_MISMATCH
  | NO_UPDATE_AVAILABLE
  | OTA_FAILED
  | OTA_DOWNLOAD_FAILED
  | OTA_DECOMPRESSION_FAILED
  | OTA_APPLY_FAILED
  | OTA_NOT_CAPABLE
  | OTA_BEGIN_FAILED
  | OTA_WIFI_FW_MISSING
  | PLATFORM_NOT_SUPPORTED
  | BUFFER_OVERFLOW_REQUEST
  | BUFFER_OVERFLOW_RESPONSE
  | CERTIFICATE_MISSING
  | SERVER_ERROR_4XX

subsection \<open>C strings and buffers\<close>

type_synonym byte = "8 word"

definition NUL :: char where
  "NUL = CHR 0x00"

definition c_str :: "string \<Rightarrow> string" where
  \<comment> \<open>the C string held by a buffer: the bytes before the first NUL\<close>
  "c_str buf = takeWhile (\<lambda>c. c \<noteq> NUL) buf"

definition strlen :: "string \<Rightarrow> nat" where
  "strlen s = length s"

definition or_empty :: "string option \<Rightarrow> string" where
  \<comment> \<open>\<^verbatim>\<open>p ? p : ""\<close>\<close>
  "or_empty p = (case p of None \<Rightarrow> [] | Some s \<Rightarrow> s)"

definition snprintf :: "nat \<Rightarrow> string \<Rightarrow> int \<times> string" where
  \<comment> \<open>\<^verbatim>\<open>snprintf(buf, size, fmt, ...)\<close> with the format already expanded to \<open>txt\<close>:
      the result is the length the whole text has, the buffer receives at most
      \<open>cap - 1\<close> characters of it\<close>
  "snprintf cap txt = (int (length txt), take (cap - 1) txt)"

subsection \<open>generateServerToken (POTA.cpp, lines 167 to 218)\<close>

definition hexChars :: string where
  "hexChars = ''0123456789abcdef''"

definition message_format :: "string \<Rightarrow> string \<Rightarrow> string \<Rightarrow> string \<Rightarrow> string \<Rightarrow> string
    \<Rightarrow> string \<Rightarrow> string" where
  \<comment> \<open>the expansion of \<^verbatim>\<open>"%s:%s:%s:%s:%s:%s:%s"\<close>\<close>
  "message_format a b c d e f g =
     a @ '':'' @ b @ '':'' @ c @ '':'' @ d @ '':'' @ e @ '':'' @ f @ '':'' @ g"

definition hex_step :: "byte list \<Rightarrow> nat \<Rightarrow> string \<Rightarrow> string" where
  \<comment> \<open>one round of the loop of lines 212 to 215\<close>
  "hex_step hmac i outToken =
     (outToken[i * 2 := hexChars ! unat (drop_bit 4 (hmac ! i) AND 0x0F)])
       [i * 2 + 1 := hexChars ! unat ((hmac ! i) AND 0x0F)]"

definition hex_loop :: "byte list \<Rightarrow> string \<Rightarrow> string" where
  \<comment> \<open>\<^verbatim>\<open>for (int i = 0; i < 32; ++i)\<close>\<close>
  "hex_loop hmac outToken = fold (hex_step hmac) [0..<32] outToken"

definition generateServerToken ::
  "(string \<Rightarrow> string \<Rightarrow> byte list) \<Rightarrow> bool \<Rightarrow> string option \<Rightarrow> string option
    \<Rightarrow> string option \<Rightarrow> string option \<Rightarrow> string option \<Rightarrow> string option
    \<Rightarrow> string option \<Rightarrow> string option \<Rightarrow> nat \<Rightarrow> POTAError + string" where
  \<comment> \<open>\<open>hmac_sha256 key msg\<close> is what the platform's HMAC-SHA256 leaves in the array
      \<^verbatim>\<open>hmac[32]\<close>. \<open>Inl e\<close> is the return of the error \<open>e\<close>; \<open>Inr buf\<close> is the return of
      SUCCESS, with \<open>buf\<close> the contents of \<^verbatim>\<open>outToken\<close> afterwards.\<close>
  "generateServerToken hmac_sha256 update version url checksum protocol_version notes timestamp
       secret outToken outTokenSize =
     (case secret of
        None \<Rightarrow> Inl PARAMETER_INVALID_SECRET
      | Some key \<Rightarrow>
     (case outToken of
        None \<Rightarrow> Inl PARAMETER_INVALID_OUTPUT
      | Some out \<Rightarrow>
          if outTokenSize < 65 then Inl PARAMETER_INVALID_OUTPUT
          else
            let (n, message) = snprintf 512
                  (message_format (if update then ''true'' else ''false'')
                     (or_empty version) (or_empty url) (or_empty checksum)
                     (or_empty protocol_version) (or_empty notes) (or_empty timestamp))
            in if n < 0 \<or> n \<ge> 512 then Inl TOKEN_GENERATION_FAILED
               else
                 let hmac = hmac_sha256 key message
                 in Inr ((hex_loop hmac out)[64 := NUL])))"

subsection \<open>The token as the specification words it\<close>

definition colon_join :: "string list \<Rightarrow> string" where
  "colon_join fields = (case fields of [] \<Rightarrow> [] | f # fs \<Rightarrow> f @ concat (map (\<lambda>s. CHR '':'' # s) fs))"

definition hex_digit :: "nat \<Rightarrow> char" where
  \<comment> \<open>the lowercase hexadecimal digit of a value below 16\<close>
  "hex_digit d = (if d < 10 then char_of (48 + d) else char_of (87 + d))"

definition hex_encode :: "byte list \<Rightarrow> string" where
  \<comment> \<open>two digits per byte, the high nibble first\<close>
  "hex_encode bs = concat (map (\<lambda>b. [hex_digit (unat b div 16), hex_digit (unat b mod 16)]) bs)"

definition canonical_message :: "bool \<Rightarrow> string \<Rightarrow> string \<Rightarrow> string \<Rightarrow> string \<Rightarrow> string
    \<Rightarrow> string \<Rightarrow> string" where
  \<comment> \<open>update : version : url : checksum : protocol_version : notes : timestamp\<close>
  "canonical_message update version url checksum protocol_version notes timestamp =
     colon_join [if update then ''true'' else ''false'', version, url, checksum,
                 protocol_version, notes, timestamp]"

subsection \<open>Decimal output (\<^verbatim>\<open>%ld\<close> and \<^verbatim>\<open>println(int)\<close>)\<close>

function dec_nat :: "nat \<Rightarrow> string" where
  "dec_nat n = (if n < 10 then [char_of (48 + n)]
                else dec_nat (n div 10) @ [char_of (48 + n mod 10)])"
  by pat_completeness auto
termination
  by (relation "measure id") auto

declare dec_nat.simps [simp del]

definition dec_int :: "int \<Rightarrow> string" where
  "dec_int i = (if i < 0 then CHR ''-'' # dec_nat (nat (- i)) else dec_nat (nat i))"

subsection \<open>The object and its initialization (POTA.cpp, lines 44 to 128)\<close>

text \<open>
  \<^verbatim>\<open>_client\<close> points either to the function-local static client of \<^verbatim>\<open>begin\<close> or to a
  client of the caller. The four character arrays are held as the C strings they contain.
\<close>

datatype client_ref = Static_Client | Caller_Client nat

record POTA =
  m_client :: "client_ref option"
  m_deviceType :: string
  m_firmwareVersion :: string
  m_authToken :: string
  m_serverSecret :: string

definition POTA_new :: POTA where
  \<comment> \<open>the constructor\<close>
  "POTA_new = \<lparr>m_client = None, m_deviceType = [], m_firmwareVersion = [],
               m_authToken = [], m_serverSecret = []\<rparr>"

definition strncpy_z :: "nat \<Rightarrow> string \<Rightarrow> string" where
  \<comment> \<open>\<^verbatim>\<open>strncpy(dst, src, cap - 1); dst[cap - 1] = '\0'\<close>: the C string left in \<open>dst\<close>\<close>
  "strncpy_z cap src = take (cap - 1) src"

definition beginClient :: "client_ref \<Rightarrow> string option \<Rightarrow> string option \<Rightarrow> string option
    \<Rightarrow> string option \<Rightarrow> POTA \<Rightarrow> POTAError \<times> POTA" where
  "beginClient client deviceType firmwareVersion authToken serverSecret this =
     (case deviceType of
        None \<Rightarrow> (PARAMETER_INVALID_DEVICETYPE, this)
      | Some dt \<Rightarrow>
     if strlen dt = 0 \<or> strlen dt \<ge> 32 then (PARAMETER_INVALID_DEVICETYPE, this) else
     (case firmwareVersion of
        None \<Rightarrow> (PARAMETER_INVALID_FWVERSION, this)
      | Some fv \<Rightarrow>
     if strlen fv = 0 \<or> strlen fv \<ge> 32 then (PARAMETER_INVALID_FWVERSION, this) else
     (case authToken of
        None \<Rightarrow> (PARAMETER_INVALID_AUTHTOKEN, this)
      | Some at \<Rightarrow>
     if strlen at = 0 \<or> strlen at \<ge> 64 then (PARAMETER_INVALID_AUTHTOKEN, this) else
     (case serverSecret of
        None \<Rightarrow> (PARAMETER_INVALID_SECRET, this)
      | Some ss \<Rightarrow>
     if strlen ss = 0 \<or> strlen ss \<ge> 65 then (PARAMETER_INVALID_SECRET, this) else
       (SUCCESS,
        this\<lparr>m_client := Some client,
             m_deviceType := strncpy_z 32 dt,
             m_firmwareVersion := strncpy_z 32 fv,
             m_authToken := strncpy_z 64 at,
             m_serverSecret := strncpy_z 65 ss\<rparr>)))))"

subsection \<open>Calls on the collaborators\<close>

text \<open>
  The trace records, in program order, every call the code makes on the Wi-Fi driver and
  on the TLS client, and the three steps of the check that the specification speaks of:
  handing the buffer to the JSON parser, generating the expected token, comparing it.
  Output on the serial console is not recorded.
\<close>

datatype call =
    WifiBegin string string
  | WifiStatus
  | SetTrustAnchor
  | Connect string nat
  | Write string
  | Connected
  | Available
  | ReadBytesUntil char nat
  | ReadBytes nat
  | Stop
  | Update string
  | DeserializeJson string
  | GenerateServerToken
  | CompareToken

fun is_network_call :: "call \<Rightarrow> bool" where
  "is_network_call (DeserializeJson _) = False"
| "is_network_call GenerateServerToken = False"
| "is_network_call CompareToken = False"
| "is_network_call _ = True"

subsection \<open>begin (POTA.cpp, lines 53 to 88)\<close>

text \<open>
  \<open>status k\<close> tells whether the \<open>k\<close>-th call of \<^verbatim>\<open>WiFi.status()\<close> answers
  \<^verbatim>\<open>WL_CONNECTED\<close>. Each \<^verbatim>\<open>delay(500)\<close> is taken to last 500 ms, so that
  \<^verbatim>\<open>millis() - start\<close> is \<open>500 * (k + 1)\<close> after the \<open>k\<close>-th round.
\<close>

function wifi_wait :: "(nat \<Rightarrow> bool) \<Rightarrow> nat \<Rightarrow> call list \<Rightarrow> bool \<times> call list" where
  "wifi_wait status k io =
     (let io1 = io @ [WifiStatus] in
      if status k then (True, io1)
      else if 500 * (k + 1) > 30000 then (False, io1)
      else wifi_wait status (k + 1) io1)"
  by pat_completeness auto
termination
  by (relation "measure (\<lambda>(status, k, io). 61 - k)") auto

declare wifi_wait.simps [simp del]

definition POTA_begin :: "(nat \<Rightarrow> bool) \<Rightarrow> string option \<Rightarrow> string option \<Rightarrow> string option
    \<Rightarrow> string option \<Rightarrow> string option \<Rightarrow> string option \<Rightarrow> POTA \<Rightarrow> call list
    \<Rightarrow> POTAError \<times> POTA \<times> call list" where
  \<comment> \<open>\<^verbatim>\<open>POTA::begin\<close> on the supported platforms (ESP32, ESP8266, Opta); the header
      refuses to compile on any other\<close>
  "POTA_begin status ssid password deviceType firmwareVersion authToken serverSecret this io =
     (case ssid of
        None \<Rightarrow> (PARAMETER_INVALID_SSID, this, io)
      | Some s \<Rightarrow>
     if strlen s = 0 then (PARAMETER_INVALID_SSID, this, io) else
     (case password of
        None \<Rightarrow> (PARAMETER_INVALID_PASSWORD, this, io)
      | Some p \<Rightarrow>
     if strlen p = 0 then (PARAMETER_INVALID_PASSWORD, this, io) else
       let (up, io1) = wifi_wait status 0 (io @ [WifiBegin s p]) in
       if \<not> up then (WIFI_CONNECT_FAILED, this, io1)
       else
         let (err, this1) =
               beginClient Static_Client deviceType firmwareVersion authToken serverSecret this
         in (err, this1, io1)))"

subsection \<open>The parsed response (POTA.cpp, lines 314 to 328)\<close>

text \<open>
  What \<^verbatim>\<open>deserializeJson\<close> leaves in the document. A string value is the C string that
  \<^verbatim>\<open>as<const char*>()\<close> points to. \<^verbatim>\<open>doc[key]\<close> is the first member of that name when
  the root is an object, and unbound otherwise.
\<close>

datatype json =
    JNull
  | JBool bool
  | JInteger int
  | JFloat int int
  | JString string
  | JArray "json list"
  | JObject "(string \<times> json) list"

definition member :: "json \<Rightarrow> string \<Rightarrow> json option" where
  "member doc key = (case doc of JObject ms \<Rightarrow> map_of ms key | _ \<Rightarrow> None)"

text \<open>
  ArduinoJson's \<^verbatim>\<open>variant | defaultValue\<close>: the value when the variant holds one of the
  type of the default, the default otherwise. The default \<^verbatim>\<open>0\<close> is an \<^verbatim>\<open>int\<close>, of 32
  bits on the three platforms, and an integer outside its range is not an \<^verbatim>\<open>int\<close>.
\<close>

definition or_bool :: "json option \<Rightarrow> bool \<Rightarrow> bool" where
  "or_bool v d = (case v of Some (JBool b) \<Rightarrow> b | _ \<Rightarrow> d)"

definition or_cstr :: "json option \<Rightarrow> string \<Rightarrow> string" where
  "or_cstr v d = (case v of Some (JString s) \<Rightarrow> s | _ \<Rightarrow> d)"

definition or_int :: "json option \<Rightarrow> int \<Rightarrow> int" where
  "or_int v d =
     (case v of
        Some (JInteger i) \<Rightarrow> if - (2 ^ 31) \<le> i \<and> i < 2 ^ 31 then i else d
      | _ \<Rightarrow> d)"

record response =
  r_update :: bool
  r_url :: string
  r_version :: string
  r_checksum :: string
  r_protocol_version :: string
  r_notes :: string
  r_server_token :: string
  r_errorMsg :: string
  r_timestampValue :: int

definition extract_fields :: "json \<Rightarrow> response" where
  \<comment> \<open>lines 315 to 323\<close>
  "extract_fields doc =
     \<lparr>r_update = or_bool (member doc ''update'') False,
      r_url = or_cstr (member doc ''url'') [],
      r_version = or_cstr (member doc ''version'') [],
      r_checksum = or_cstr (member doc ''checksum'') [],
      r_protocol_version = or_cstr (member doc ''protocol_version'') [],
      r_notes = or_cstr (member doc ''notes'') [],
      r_server_token = or_cstr (member doc ''server_token'') [],
      r_errorMsg = or_cstr (member doc ''error'') [],
      r_timestampValue = or_int (member doc ''timestamp'') 0\<rparr>"

subsection \<open>The platform\<close>

text \<open>
  The collaborators of \<^verbatim>\<open>checkOTAUpdate\<close>: the HMAC, the JSON parser (\<open>None\<close> is a
  \<^verbatim>\<open>DeserializationError\<close>), the identifier that \<^verbatim>\<open>getSecureMACAddress\<close> reads from the
  hardware, the TLS client, a state machine of an unknown state type \<open>'c\<close>, and the
  firmware updater of the board behind \<^verbatim>\<open>performOTA\<close>, with the error code it ends in.
  Every operation of the client may change its state, so that time can pass between two
  polls.
\<close>

record 'c platform =
  hmac_sha256 :: "string \<Rightarrow> string \<Rightarrow> byte list"
  deserializeJson :: "string \<Rightarrow> json option"
  getSecureMACAddress :: string
  cl_setTrustAnchor :: "'c \<Rightarrow> 'c"
  cl_connect :: "string \<Rightarrow> nat \<Rightarrow> 'c \<Rightarrow> bool \<times> 'c"
  cl_write :: "string \<Rightarrow> 'c \<Rightarrow> 'c"
  cl_connected :: "'c \<Rightarrow> bool \<times> 'c"
  cl_available :: "'c \<Rightarrow> nat \<times> 'c"
  cl_readBytesUntil :: "char \<Rightarrow> nat \<Rightarrow> 'c \<Rightarrow> string \<times> 'c"
  cl_readBytes :: "nat \<Rightarrow> 'c \<Rightarrow> string \<times> 'c"
  cl_stop :: "'c \<Rightarrow> 'c"
  ota_apply :: "string \<Rightarrow> POTAError"

record 'c world =
  tls :: 'c
  calls :: "call list"

definition setTrustAnchor :: "'c platform \<Rightarrow> 'c world \<Rightarrow> 'c world" where
  \<comment> \<open>\<^verbatim>\<open>setCACert\<close>, \<^verbatim>\<open>setTrustAnchors\<close> or \<^verbatim>\<open>appendCustomCACert\<close>, by platform\<close>
  "setTrustAnchor P w = \<lparr>tls = cl_setTrustAnchor P (tls w), calls = calls w @ [SetTrustAnchor]\<rparr>"

definition connect :: "'c platform \<Rightarrow> string \<Rightarrow> nat \<Rightarrow> 'c world \<Rightarrow> bool \<times> 'c world" where
  "connect P host port w =
     (let (ok, c) = cl_connect P host port (tls w)
      in (ok, \<lparr>tls = c, calls = calls w @ [Connect host port]\<rparr>))"

definition print :: "'c platform \<Rightarrow> string \<Rightarrow> 'c world \<Rightarrow> 'c world" where
  "print P s w = \<lparr>tls = cl_write P s (tls w), calls = calls w @ [Write s]\<rparr>"

definition println :: "'c platform \<Rightarrow> string \<Rightarrow> 'c world \<Rightarrow> 'c world" where
  "println P s w = print P (s @ [CHR 0x0D, CHR 0x0A]) w"

definition connected :: "'c platform \<Rightarrow> 'c world \<Rightarrow> bool \<times> 'c world" where
  "connected P w =
     (let (b, c) = cl_connected P (tls w) in (b, \<lparr>tls = c, calls = calls w @ [Connected]\<rparr>))"

definition available :: "'c platform \<Rightarrow> 'c world \<Rightarrow> nat \<times> 'c world" where
  "available P w =
     (let (n, c) = cl_available P (tls w) in (n, \<lparr>tls = c, calls = calls w @ [Available]\<rparr>))"

definition readBytesUntil :: "'c platform \<Rightarrow> char \<Rightarrow> nat \<Rightarrow> 'c world \<Rightarrow> string \<times> 'c world" where
  "readBytesUntil P t n w =
     (let (bs, c) = cl_readBytesUntil P t n (tls w)
      in (bs, \<lparr>tls = c, calls = calls w @ [ReadBytesUntil t n]\<rparr>))"

definition readBytes :: "'c platform \<Rightarrow> nat \<Rightarrow> 'c world \<Rightarrow> string \<times> 'c world" where
  "readBytes P n w =
     (let (bs, c) = cl_readBytes P n (tls w)
      in (bs, \<lparr>tls = c, calls = calls w @ [ReadBytes n]\<rparr>))"

definition stop :: "'c platform \<Rightarrow> 'c world \<Rightarrow> 'c world" where
  "stop P w = \<lparr>tls = cl_stop P (tls w), calls = calls w @ [Stop]\<rparr>"

definition log_step :: "call \<Rightarrow> 'c world \<Rightarrow> 'c world" where
  \<comment> \<open>records a step that does not touch the client\<close>
  "log_step c w = w\<lparr>calls := calls w @ [c]\<rparr>"

subsection \<open>checkOTAUpdate (POTA.cpp, lines 220 to 359)\<close>

definition POTA_PROTOCOL_VERSION :: string where
  "POTA_PROTOCOL_VERSION = ''01.00''"

definition API_HOST :: string where
  "API_HOST = ''www.pleasedontcode.com''"

definition CHECK_UPDATE_API :: string where
  "CHECK_UPDATE_API = ''/api/v1/check_update/''"

definition request_format :: "string \<Rightarrow> string \<Rightarrow> string \<Rightarrow> string \<Rightarrow> string \<Rightarrow> string" where
  \<comment> \<open>the expansion of the format of lines 249 to 255\<close>
  "request_format device_id device_type firmware_version protocol_version auth_token =
     ''{'' @
     ''\"device_id\":\"'' @ device_id @ ''\",'' @
     ''\"device_type\":\"'' @ device_type @ ''\",'' @
     ''\"firmware_version\":\"'' @ firmware_version @ ''\",'' @
     ''\"protocol_version\":\"'' @ protocol_version @ ''\",'' @
     ''\"auth_token\":\"'' @ auth_token @ ''\"'' @
     ''}''"

definition build_request :: "'c platform \<Rightarrow> POTA \<Rightarrow> int \<times> string" where
  \<comment> \<open>lines 248 to 260: \<^verbatim>\<open>bodyLen\<close> and the C string left in \<^verbatim>\<open>buffer\<close>\<close>
  "build_request P this =
     snprintf 1024
       (request_format (getSecureMACAddress P) (m_deviceType this) (m_firmwareVersion this)
          POTA_PROTOCOL_VERSION (m_authToken this))"

definition send_request :: "'c platform \<Rightarrow> int \<Rightarrow> string \<Rightarrow> 'c world \<Rightarrow> 'c world" where
  \<comment> \<open>lines 270 to 277\<close>
  "send_request P bodyLen buffer w =
     (let w1 = println P (''POST '' @ CHECK_UPDATE_API @ '' HTTP/1.1'') w;
          w2 = println P (''Host: '' @ API_HOST) w1;
          w3 = println P ''Content-Type: application/json'' w2;
          w4 = print P ''Content-Length: '' w3;
          w5 = println P (dec_int bodyLen) w4;
          w6 = println P ''Connection: close'' w5;
          w7 = println P [] w6
      in println P buffer w7)"

partial_function (option) await_response :: "'c platform \<Rightarrow> 'c world \<Rightarrow> 'c world option" where
  \<comment> \<open>line 280: \<^verbatim>\<open>while (_client->connected() && !_client->available()) delay(10);\<close>\<close>
  "await_response P w =
     (case connected P w of (up, w1) \<Rightarrow>
        if \<not> up then Some w1
        else (case available P w1 of (n, w2) \<Rightarrow>
          if n \<noteq> 0 then Some w2 else await_response P w2))"

declare await_response.simps [code]

partial_function (option) skip_headers :: "'c platform \<Rightarrow> 'c world \<Rightarrow> 'c world option" where
  \<comment> \<open>lines 283 to 288\<close>
  "skip_headers P w =
     (case available P w of (n, w1) \<Rightarrow>
        if n = 0 then Some w1
        else (case readBytesUntil P (CHR 0x0A) (128 - 1) w1 of (line, w2) \<Rightarrow>
          if c_str (line @ [NUL]) = [CHR 0x0D] then Some w2 else skip_headers P w2))"

declare skip_headers.simps [code]

definition strncmp_eq :: "string \<Rightarrow> string \<Rightarrow> nat \<Rightarrow> bool" where
  \<comment> \<open>\<^verbatim>\<open>strncmp(a, b, n) == 0\<close>\<close>
  "strncmp_eq a b n = (take n a = take n b)"

definition verify_response :: "'c platform \<Rightarrow> string \<Rightarrow> nat \<Rightarrow> response \<Rightarrow> 'c world
    \<Rightarrow> (POTAError \<times> string) \<times> 'c world" where
  \<comment> \<open>lines 326 to 358; the string is the C string in \<^verbatim>\<open>outOTAUrl\<close> at the return\<close>
  "verify_response P serverSecret outOTAUrlSize r w =
     (let (n, timestampStr) = snprintf 32 (dec_int (r_timestampValue r)) in
      if strlen (r_errorMsg r) > 0 then ((SERVER_ERROR_4XX, []), w)
      else
        let w1 = log_step GenerateServerToken w in
        case generateServerToken (hmac_sha256 P) (r_update r) (Some (r_version r))
               (Some (r_url r)) (Some (r_checksum r)) (Some (r_protocol_version r))
               (Some (r_notes r)) (Some timestampStr) (Some serverSecret)
               (Some (replicate 65 NUL)) 65 of
          Inl err \<Rightarrow> ((err, []), w1)
        | Inr expectedToken \<Rightarrow>
            let w2 = log_step CompareToken w1 in
            if c_str expectedToken \<noteq> r_server_token r then ((TOKEN_MISMATCH, []), w2)
            else if r_update r \<and>
                    strncmp_eq (r_url r) (''https://'' @ API_HOST) (strlen (''https://'' @ API_HOST))
            then ((SUCCESS, strncpy_z outOTAUrlSize (r_url r)), w2)
            else ((NO_UPDATE_AVAILABLE, []), w2))"

definition process_response :: "'c platform \<Rightarrow> string \<Rightarrow> nat \<Rightarrow> string \<Rightarrow> 'c world
    \<Rightarrow> (POTAError \<times> string) \<times> 'c world" where
  \<comment> \<open>lines 305 to 358\<close>
  "process_response P serverSecret outOTAUrlSize buffer w =
     (let w1 = log_step (DeserializeJson buffer) w in
      case deserializeJson P buffer of
        None \<Rightarrow> ((JSON_PARSE_FAILED, []), w1)
      | Some doc \<Rightarrow> verify_response P serverSecret outOTAUrlSize (extract_fields doc) w1)"

definition exchange :: "'c platform \<Rightarrow> POTA \<Rightarrow> 'c world
    \<Rightarrow> ((POTAError + string) \<times> 'c world) option" where
  \<comment> \<open>lines 226 to 303, from the trust anchor to \<^verbatim>\<open>stop()\<close>: \<open>Inl e\<close> is the return of the
      error \<open>e\<close>, \<open>Inr buffer\<close> the C string in \<^verbatim>\<open>buffer\<close> handed on to the parser, and
      \<open>None\<close> a wait that never ends\<close>
  "exchange P this w =
     (let w1 = setTrustAnchor P w;
          (ok, w2) = connect P API_HOST 443 w1
      in
      if \<not> ok then Some (Inl CONNECTION_FAILED, w2)
      else
        let (bodyLen, buffer) = build_request P this in
        if bodyLen < 0 \<or> bodyLen \<ge> 1024 then Some (Inl BUFFER_OVERFLOW_REQUEST, stop P w2)
        else
          (case await_response P (send_request P bodyLen buffer w2) of
             None \<Rightarrow> None
           | Some w3 \<Rightarrow>
          (case skip_headers P w3 of
             None \<Rightarrow> None
           | Some w4 \<Rightarrow>
             let (bytes, w5) = readBytes P (1024 - 1) w4;
                 len = length bytes
             in
             if len \<ge> 1024 - 1 then Some (Inl BUFFER_OVERFLOW_RESPONSE, stop P w5)
             else Some (Inr (c_str (bytes @ [NUL])), stop P w5))))"

definition checkOTAUpdate :: "'c platform \<Rightarrow> POTA \<Rightarrow> string option \<Rightarrow> nat \<Rightarrow> 'c world
    \<Rightarrow> ((POTAError \<times> string option) \<times> 'c world) option" where
  \<comment> \<open>\<open>outOTAUrl\<close> is the C string in the caller's buffer, \<open>None\<close> for a null pointer; the
      result carries the error code and the C string in that buffer at the return. The
      value \<open>None\<close> of the whole is a call that never returns.\<close>
  "checkOTAUpdate P this outOTAUrl outOTAUrlSize w =
     (case m_client this of
        None \<Rightarrow> Some ((CLIENT_NOT_INITIALIZED, outOTAUrl), w)
      | Some client \<Rightarrow>
     if outOTAUrl = None \<or> outOTAUrlSize = 0 then Some ((PARAMETER_INVALID_OUTPUT, outOTAUrl), w)
     else
       (case exchange P this w of
          None \<Rightarrow> None
        | Some (Inl err, w6) \<Rightarrow> Some ((err, Some []), w6)
        | Some (Inr buffer, w6) \<Rightarrow>
            let ((err, url), w7) =
                  process_response P (m_serverSecret this) outOTAUrlSize buffer w6
            in Some ((err, Some url), w7)))"

subsection \<open>performOTA and checkAndPerformOTA (POTA.cpp, lines 156 to 164 and 361 to 446)\<close>

definition performOTA :: "'c platform \<Rightarrow> string option \<Rightarrow> 'c world \<Rightarrow> POTAError \<times> 'c world" where
  "performOTA P OTA_file_url w =
     (case OTA_file_url of
        None \<Rightarrow> (PARAMETER_INVALID_OTA_URL, w)
      | Some u \<Rightarrow>
          if strlen u = 0 then (PARAMETER_INVALID_OTA_URL, w)
          else (ota_apply P u, log_step (Update u) w))"

definition checkAndPerformOTA :: "'c platform \<Rightarrow> POTA \<Rightarrow> 'c world \<Rightarrow> (POTAError \<times> 'c world) option" where
  "checkAndPerformOTA P this w =
     (case m_client this of
        None \<Rightarrow> Some (CLIENT_NOT_INITIALIZED, w)
      | Some client \<Rightarrow>
          (case checkOTAUpdate P this (Some []) 256 w of
             None \<Rightarrow> None
           | Some ((err, otaUrl), w1) \<Rightarrow>
               if err \<noteq> SUCCESS then Some (err, w1) else Some (performOTA P otaUrl w1)))"

subsection \<open>The words of the specification\<close>

definition param_invalid :: "nat \<Rightarrow> string option \<Rightarrow> bool" where
  \<comment> \<open>not (non-null, non-empty and of a length strictly less than the capacity)\<close>
  "param_invalid cap p = (case p of None \<Rightarrow> True | Some s \<Rightarrow> s = [] \<or> length s \<ge> cap)"

definition wifi_param_invalid :: "string option \<Rightarrow> bool" where
  \<comment> \<open>null or empty\<close>
  "wifi_param_invalid p = (case p of None \<Rightarrow> True | Some s \<Rightarrow> s = [])"

fun first_failing :: "(bool \<times> POTAError) list \<Rightarrow> POTAError" where
  \<comment> \<open>the error of the first check that fails, in the order of the list\<close>
  "first_failing [] = SUCCESS"
| "first_failing ((failed, err) # rest) = (if failed then err else first_failing rest)"

definition config_checks :: "string option \<Rightarrow> string option \<Rightarrow> string option \<Rightarrow> string option
    \<Rightarrow> (bool \<times> POTAError) list" where
  "config_checks deviceType firmwareVersion authToken serverSecret =
     [(param_invalid 32 deviceType, PARAMETER_INVALID_DEVICETYPE),
      (param_invalid 32 firmwareVersion, PARAMETER_INVALID_FWVERSION),
      (param_invalid 64 authToken, PARAMETER_INVALID_AUTHTOKEN),
      (param_invalid 65 serverSecret, PARAMETER_INVALID_SECRET)]"

definition closed_at_return :: "call list \<Rightarrow> bool" where
  \<comment> \<open>the last call on the network is \<^verbatim>\<open>stop()\<close>\<close>
  "closed_at_return cs =
     (case dropWhile (\<lambda>c. \<not> is_network_call c) (rev cs) of
        Stop # _ \<Rightarrow> True
      | _ \<Rightarrow> False)"

definition response_fields :: "string list" where
  "response_fields = [''update'', ''url'', ''version'', ''checksum'', ''protocol_version'',
                      ''notes'', ''server_token'', ''error'', ''timestamp'']"

definition field_default :: "string \<Rightarrow> json" where
  \<comment> \<open>booleans default false, strings default empty, integers default 0\<close>
  "field_default k =
     (if k = ''update'' then JBool False
      else if k = ''timestamp'' then JInteger 0
      else JString [])"

definition field_typed :: "string \<Rightarrow> json \<Rightarrow> bool" where
  \<comment> \<open>the value has the type of its field\<close>
  "field_typed k v =
     (if k = ''update'' then (case v of JBool b \<Rightarrow> True | _ \<Rightarrow> False)
      else if k = ''timestamp''
        then (case v of JInteger i \<Rightarrow> - (2 ^ 31) \<le> i \<and> i < 2 ^ 31 | _ \<Rightarrow> False)
      else (case v of JString s \<Rightarrow> True | _ \<Rightarrow> False))"

definition field_value :: "string \<Rightarrow> response \<Rightarrow> json" where
  \<comment> \<open>what the check goes on with for the field of that name\<close>
  "field_value k r =
     (if k = ''update'' then JBool (r_update r)
      else if k = ''timestamp'' then JInteger (r_timestampValue r)
      else JString
        (if k = ''url'' then r_url r
         else if k = ''version'' then r_version r
         else if k = ''checksum'' then r_checksum r
         else if k = ''protocol_version'' then r_protocol_version r
         else if k = ''notes'' then r_notes r
         else if k = ''server_token'' then r_server_token r
         else r_errorMsg r))"

definition response_message :: "response \<Rightarrow> string" where
  \<comment> \<open>the canonical message of a response, the timestamp in decimal\<close>
  "response_message r =
     canonical_message (r_update r) (r_version r) (r_url r) (r_checksum r)
       (r_protocol_version r) (r_notes r) (dec_int (r_timestampValue r))"

definition trusted_prefix :: string where
  "trusted_prefix = ''https://www.pleasedontcode.com''"

subsection \<open>A scripted platform for the examples\<close>

text \<open>
  A client whose server has already answered with the bytes of \<open>inbox\<close>, a parser given
  by a table from texts to documents, and a stand-in for the HMAC that fills the 32 bytes
  with the sum of the lengths of key and message.
\<close>

record sim =
  inbox :: string
  link_up :: bool

definition sim_readBytesUntil :: "char \<Rightarrow> nat \<Rightarrow> sim \<Rightarrow> string \<times> sim" where
  "sim_readBytesUntil t n c =
     (let line = takeWhile (\<lambda>x. x \<noteq> t) (inbox c) in
      if length line < n then (line, c\<lparr>inbox := drop (length line + 1) (inbox c)\<rparr>)
      else (take n (inbox c), c\<lparr>inbox := drop n (inbox c)\<rparr>))"

definition sim_hmac :: "string \<Rightarrow> string \<Rightarrow> byte list" where
  "sim_hmac key msg = replicate 32 (of_nat (length key + length msg))"

definition sim_platform :: "(string \<times> json) list \<Rightarrow> string \<Rightarrow> sim platform" where
  "sim_platform table mac =
     \<lparr>hmac_sha256 = sim_hmac,
      deserializeJson = map_of table,
      getSecureMACAddress = mac,
      cl_setTrustAnchor = (\<lambda>c. c),
      cl_connect = (\<lambda>host port c. (link_up c, c)),
      cl_write = (\<lambda>s c. c),
      cl_connected = (\<lambda>c. (link_up c, c)),
      cl_available = (\<lambda>c. (length (inbox c), c)),
      cl_readBytesUntil = sim_readBytesUntil,
      cl_readBytes = (\<lambda>n c. (take n (inbox c), c\<lparr>inbox := drop n (inbox c)\<rparr>)),
      cl_stop = (\<lambda>c. c\<lparr>link_up := False\<rparr>),
      ota_apply = (\<lambda>u. SUCCESS)\<rparr>"

definition sim_headers :: string where
  "sim_headers = ''HTTP/1.1 200 OK'' @ [CHR 0x0D, CHR 0x0A] @ [CHR 0x0D, CHR 0x0A]"

definition sim_world :: "string \<Rightarrow> sim world" where
  \<comment> \<open>the server answers with the headers and the body \<open>body\<close>\<close>
  "sim_world body = \<lparr>tls = \<lparr>inbox = sim_headers @ body, link_up = True\<rparr>, calls = []\<rparr>"

definition sim_pota :: POTA where
  "sim_pota = \<lparr>m_client = Some Static_Client, m_deviceType = ''sensor1'',
               m_firmwareVersion = ''1.0.0'', m_authToken = ''abc'',
               m_serverSecret = ''s3cr3t''\<rparr>"

definition sim_fields :: "(string \<times> json) list" where
  "sim_fields =
     [(''update'', JBool True), (''version'', JString ''1.1.0''),
      (''url'', JString ''https://www.pleasedontcode.com/fw.bin''),
      (''checksum'', JString ''deadbeef''), (''protocol_version'', JString ''01.00''),
      (''notes'', JString ''fix''), (''timestamp'', JInteger 1000)]"

definition sim_signed :: "(string \<times> json) list \<Rightarrow> json" where
  \<comment> \<open>the document of a server that holds the secret of \<open>sim_pota\<close>\<close>
  "sim_signed ms =
     JObject ((''server_token'',
               JString (hex_encode (sim_hmac ''s3cr3t''
                          (response_message (extract_fields (JObject ms)))))) # ms)"

definition sim_long_url :: string where
  \<comment> \<open>a trusted url of 301 bytes\<close>
  "sim_long_url = ''https://www.pleasedontcode.com/'' @ replicate 270 CHR ''a''"

definition sim_mac :: string where
  "sim_mac = ''AA:BB:CC:DD:EE:FF''"

section \<open>The expected token\<close>

subsection \<open>The loop of generateServerToken writes the hexadecimal encoding\<close>

lemma hexChars_all: "list_all (\<lambda>d. hexChars ! d = hex_digit d) [0..<16]"
  by code_simp

lemma hexChars_digit: "d < 16 \<Longrightarrow> hexChars ! d = hex_digit d"
  using hexChars_all by (simp add: list_all_iff)

lemma mask4: "(0x0F::byte) = mask 4"
  by (simp add: mask_eq_exp_minus_1)

lemma lo_nibble: "unat ((b::byte) AND 0x0F) = unat b mod 16"
proof -
  have "b AND 0x0F = b mod 16"
    unfolding mask4 by (simp add: take_bit_eq_mod flip: take_bit_eq_mask)
  then show ?thesis by (simp add: unat_mod_distrib)
qed

lemma hi_nibble: "unat (drop_bit 4 (b::byte) AND 0x0F) = unat b div 16"
proof -
  have "unat b < 256" using unsigned_less [of b, where 'a = nat] by simp
  then have "unat b div 16 < 16" by simp
  then show ?thesis
    unfolding lo_nibble by (simp add: unat_drop_bit_eq drop_bit_eq_div unat_div_distrib)
qed

lemma length_hex_encode: "length (hex_encode bs) = 2 * length bs"
  by (induction bs) (simp_all add: hex_encode_def)

lemma hex_encode_snoc: "hex_encode (bs @ [b]) = hex_encode bs @ [hex_digit (unat b div 16), hex_digit (unat b mod 16)]"
  by (simp add: hex_encode_def)

lemma hex_step_eq:
  "hex_step h i buf = (buf[i * 2 := hex_digit (unat (h ! i) div 16)])[i * 2 + 1 := hex_digit (unat (h ! i) mod 16)]"
proof -
  have a: "unat (h ! i) div 16 < 16" using unsigned_less [of "h ! i", where 'a = nat] by simp
  have b: "unat (h ! i) mod 16 < 16" by simp
  show ?thesis
    apply (simp only: hex_step_def hi_nibble)
    apply (simp only: lo_nibble hexChars_digit [OF a] hexChars_digit [OF b])
    done
qed

lemma fold_hex_step:
  "n \<le> length h \<Longrightarrow> 2 * n < length buf \<Longrightarrow>
   fold (hex_step h) [0..<n] buf = hex_encode (take n h) @ drop (2 * n) buf"
proof (induction n)
  case 0
  show ?case by (simp add: hex_encode_def)
next
  case (Suc n)
  let ?p = "hex_encode (take n h)"
  let ?r = "drop (2 * n) buf"
  have len: "length ?p = 2 * n" using Suc.prems by (simp add: length_hex_encode)
  have ih: "fold (hex_step h) [0..<n] buf = ?p @ ?r" using Suc by simp
  have r: "?r = buf ! (2 * n) # buf ! (2 * n + 1) # drop (2 * Suc n) buf"
    using Suc.prems by (simp add: Cons_nth_drop_Suc)
  have tk: "take (Suc n) h = take n h @ [h ! n]"
    using Suc.prems by (simp add: take_Suc_conv_app_nth)
  have "fold (hex_step h) [0..<Suc n] buf = hex_step h n (?p @ ?r)"
    using ih by simp
  also have "\<dots> = ?p @ [hex_digit (unat (h ! n) div 16), hex_digit (unat (h ! n) mod 16)] @ drop (2 * Suc n) buf"
    unfolding hex_step_eq
    apply (subst r)
    using len by (simp add: list_update_append mult.commute)
  finally show ?case by (simp add: tk hex_encode_snoc)
qed


lemma hex_digit_in: "d < 16 \<Longrightarrow> hex_digit d \<in> set hexChars"
proof -
  assume d: "d < 16"
  have "length hexChars = 16" by (simp add: hexChars_def)
  with d have "hexChars ! d \<in> set hexChars" by simp
  with d show ?thesis by (simp add: hexChars_digit)
qed

lemma set_hex_encode: "set (hex_encode bs) \<subseteq> set hexChars"
proof -
  have "hex_digit (unat b div 16) \<in> set hexChars \<and> hex_digit (unat b mod 16) \<in> set hexChars" for b :: byte
  proof -
    have "unat b div 16 < 16" using unsigned_less [of b, where 'a = nat] by simp
    then show ?thesis by (simp add: hex_digit_in)
  qed
  then show ?thesis unfolding hex_encode_def by auto
qed

lemma NUL_notin_hexChars: "NUL \<notin> set hexChars"
  by (simp add: NUL_def hexChars_def)


lemma message_format_canonical:
  "message_format (if u then ''true'' else ''false'') v l c p n t = canonical_message u v l c p n t"
  by (simp add: message_format_def canonical_message_def colon_join_def)

lemma c_str_terminated: "NUL \<notin> set s \<Longrightarrow> c_str (s @ NUL # rest) = s"
  by (induction s) (auto simp: c_str_def)

lemma hex_loop_encode:
  assumes "length h = 32" and "65 \<le> length out"
  shows "c_str ((hex_loop h out)[64 := NUL]) = hex_encode h"
proof -
  have "hex_loop h out = hex_encode (take 32 h) @ drop (2 * 32) out"
    unfolding hex_loop_def using assms by (intro fold_hex_step) simp_all
  then have loop: "hex_loop h out = hex_encode h @ drop 64 out"
    using assms by simp
  have len: "length (hex_encode h) = 64"
    using assms by (simp add: length_hex_encode)
  have "drop 64 out = out ! 64 # drop (Suc 64) out"
    using assms by (intro Cons_nth_drop_Suc [symmetric]) simp
  then have "drop 64 out = out ! 64 # drop 65 out"
    by simp
  then have "(hex_loop h out)[64 := NUL] = hex_encode h @ NUL # drop 65 out"
    using len by (simp add: loop list_update_append)
  moreover have "NUL \<notin> set (hex_encode h)"
    using set_hex_encode [of h] NUL_notin_hexChars by blast
  ultimately show ?thesis by (simp add: c_str_terminated)
qed

lemma generateServerToken_format_short:
  assumes "length (message_format (if u then ''true'' else ''false'') (or_empty v) (or_empty l) (or_empty c) (or_empty p) (or_empty n) (or_empty t)) < 512"
    and "65 \<le> sz"
  shows "generateServerToken hm u v l c p n t (Some key) (Some out) sz =
         Inr ((hex_loop (hm key (message_format (if u then ''true'' else ''false'') (or_empty v) (or_empty l) (or_empty c) (or_empty p) (or_empty n) (or_empty t))) out)[64 := NUL])"
  using assms
  by (simp add: generateServerToken_def snprintf_def del: if_split)

lemma generateServerToken_format_long:
  assumes "length (message_format (if u then ''true'' else ''false'') (or_empty v) (or_empty l) (or_empty c) (or_empty p) (or_empty n) (or_empty t)) \<ge> 512"
    and "65 \<le> sz"
  shows "generateServerToken hm u v l c p n t (Some key) (Some out) sz = Inl TOKEN_GENERATION_FAILED"
  using assms
  by (simp add: generateServerToken_def snprintf_def del: if_split)

lemmas generateServerToken_short = generateServerToken_format_short [unfolded message_format_canonical]
lemmas generateServerToken_long = generateServerToken_format_long [unfolded message_format_canonical]

text \<open>
  Claim C1, as amended. For every secret and every tuple of response fields whose
  canonical message (update as true or false, version, url, checksum, protocol version,
  notes and timestamp, joined by colons in that order) is shorter than 512 bytes,
  \<^verbatim>\<open>generateServerToken\<close> returns SUCCESS and leaves in \<^verbatim>\<open>outToken\<close> the hexadecimal
  encoding of the 32 bytes of HMAC-SHA256 of the message under the secret: 64 characters,
  each a digit or a lowercase letter from a to f. A null field counts as the empty string.
\<close>

theorem generateServerToken_hmac_hex:
  assumes short: "length (canonical_message u (or_empty v) (or_empty l) (or_empty c) (or_empty p) (or_empty n) (or_empty t)) < 512"
    and mac: "length (hm key (canonical_message u (or_empty v) (or_empty l) (or_empty c) (or_empty p) (or_empty n) (or_empty t))) = 32"
    and buf: "length out = sz" "65 \<le> sz"
  shows "\<exists>token. generateServerToken hm u v l c p n t (Some key) (Some out) sz = Inr token
           \<and> c_str token = hex_encode (hm key (canonical_message u (or_empty v) (or_empty l) (or_empty c) (or_empty p) (or_empty n) (or_empty t)))
           \<and> length (c_str token) = 64
           \<and> set (c_str token) \<subseteq> set ''0123456789abcdef''"
proof -
  let ?m = "canonical_message u (or_empty v) (or_empty l) (or_empty c) (or_empty p) (or_empty n) (or_empty t)"
  let ?tok = "(hex_loop (hm key ?m) out)[64 := NUL]"
  have "generateServerToken hm u v l c p n t (Some key) (Some out) sz = Inr ?tok"
    using short buf(2) by (rule generateServerToken_short)
  moreover have enc: "c_str ?tok = hex_encode (hm key ?m)"
    using mac buf by (intro hex_loop_encode) simp_all
  moreover have "length (hex_encode (hm key ?m)) = 64"
    using mac by (simp add: length_hex_encode)
  moreover have "set (hex_encode (hm key ?m)) \<subseteq> set ''0123456789abcdef''"
    using set_hex_encode [of "hm key ?m"] by (simp only: hexChars_def)
  ultimately show ?thesis by (intro exI [of _ ?tok]) (simp only: enc simp_thms)
qed


theorem generateServerToken_hmac_hex_witness:
  "\<exists>token. generateServerToken sim_hmac True (Some ''1.1.0'') (Some ''https://www.pleasedontcode.com/fw.bin'')
       (Some ''deadbeef'') (Some ''01.00'') (Some ''fix'') (Some ''1000'') (Some ''s3cr3t'')
       (Some (replicate 65 NUL)) 65 = Inr token
     \<and> c_str token = hex_encode (sim_hmac ''s3cr3t'' ''true:1.1.0:https://www.pleasedontcode.com/fw.bin:deadbeef:01.00:fix:1000'')
     \<and> length (c_str token) = 64
     \<and> set (c_str token) \<subseteq> set ''0123456789abcdef''"
  using generateServerToken_hmac_hex [of True "Some ''1.1.0''" "Some ''https://www.pleasedontcode.com/fw.bin''"
      "Some ''deadbeef''" "Some ''01.00''" "Some ''fix''" "Some ''1000''" sim_hmac "''s3cr3t''"
      "replicate 65 NUL" 65]
  by (simp add: canonical_message_def colon_join_def or_empty_def sim_hmac_def)


text \<open>
  The claim as it is worded speaks of every tuple of fields. With a url of 512 bytes the
  message does not fit the 512 bytes of \<^verbatim>\<open>message\<close>, and the function returns
  \<^verbatim>\<open>TOKEN_GENERATION_FAILED\<close> without a token.
\<close>

theorem generateServerToken_long_message_counterexample:
  "generateServerToken sim_hmac True (Some ''1.1.0'') (Some (replicate 512 CHR ''a''))
       (Some ''deadbeef'') (Some ''01.00'') (Some ''fix'') (Some ''1000'') (Some ''s3cr3t'')
       (Some (replicate 65 NUL)) 65 = Inl TOKEN_GENERATION_FAILED"
  by (simp add: generateServerToken_def snprintf_def message_format_def or_empty_def)


section \<open>Initialization\<close>

lemma beginClient_first_failing:
  "fst (beginClient cl dt fv at ss this) = first_failing (config_checks dt fv at ss)"
  by (simp add: beginClient_def config_checks_def param_invalid_def strlen_def
           split: option.splits)

lemma beginClient_failure_keeps:
  "fst (beginClient cl dt fv at ss this) \<noteq> SUCCESS \<Longrightarrow> snd (beginClient cl dt fv at ss this) = this"
  by (auto simp add: beginClient_def strlen_def split: option.splits if_splits)

lemma first_failing_config_checks:
  "first_failing (config_checks dt fv at ss) = SUCCESS \<longleftrightarrow>
     \<not> (param_invalid 32 dt \<or> param_invalid 32 fv \<or> param_invalid 64 at \<or> param_invalid 65 ss)"
  by (simp add: config_checks_def)

lemma wifi_wait_extends: "\<exists>rest. snd (wifi_wait status k io) = io @ WifiStatus # rest"
proof (induction status k io rule: wifi_wait.induct)
  case (1 status k io)
  show ?case
  proof (cases "status k \<or> 500 * (k + 1) > 30000")
    case True
    then show ?thesis by (subst wifi_wait.simps) (auto simp: Let_def)
  next
    case False
    then obtain rest where "snd (wifi_wait status (k + 1) (io @ [WifiStatus])) = (io @ [WifiStatus]) @ WifiStatus # rest"
      using "1.IH" [of "io @ [WifiStatus]"] by auto
    with False show ?thesis by (subst wifi_wait.simps) (simp add: Let_def)
  qed
qed

lemma POTA_begin_unfold:
  "POTA_begin status ssid pw dt fv at ss this io =
     (if wifi_param_invalid ssid then (PARAMETER_INVALID_SSID, this, io)
      else if wifi_param_invalid pw then (PARAMETER_INVALID_PASSWORD, this, io)
      else let r = wifi_wait status 0 (io @ [WifiBegin (or_empty ssid) (or_empty pw)]) in
        if \<not> fst r then (WIFI_CONNECT_FAILED, this, snd r)
        else (fst (beginClient Static_Client dt fv at ss this),
              snd (beginClient Static_Client dt fv at ss this), snd r))"
  by (simp add: POTA_begin_def wifi_param_invalid_def or_empty_def strlen_def Let_def
           split: option.splits prod.splits)

lemma wifi_wait_never: "\<not> fst (wifi_wait (\<lambda>k. False) k io)"
proof (induction "\<lambda>k::nat. False" k io rule: wifi_wait.induct)
  case (1 k io)
  show ?case
  proof (cases "500 * (k + 1) > 30000")
    case True
    then show ?thesis by (subst wifi_wait.simps) (simp add: Let_def)
  next
    case False
    with "1" show ?thesis by (subst wifi_wait.simps) (simp add: Let_def)
  qed
qed

text \<open>
  Claim C7. Whenever one of the four configuration fields (device type, firmware version,
  authentication token, server secret) fails its validation, \<^verbatim>\<open>beginClient\<close> and
  \<^verbatim>\<open>begin\<close> leave the object as it was: the stored client pointer and the four stored
  fields keep the values of the configuration committed before.
\<close>

theorem failed_validation_commits_nothing:
  assumes "param_invalid 32 dt \<or> param_invalid 32 fv \<or> param_invalid 64 at \<or> param_invalid 65 ss"
  shows "snd (beginClient cl dt fv at ss this) = this
       \<and> fst (snd (POTA_begin status ssid pw dt fv at ss this io)) = this"
proof -
  have fail: "fst (beginClient c dt fv at ss this) \<noteq> SUCCESS" for c
    using assms by (simp add: beginClient_first_failing first_failing_config_checks)
  then have keep: "snd (beginClient c dt fv at ss this) = this" for c
    by (rule beginClient_failure_keeps)
  show ?thesis
    by (simp add: keep POTA_begin_unfold Let_def)
qed

theorem failed_validation_commits_nothing_witness:
  "param_invalid 64 (Some []) \<and>
   snd (beginClient (Caller_Client 1) (Some ''sensor2'') (Some ''2.0.0'') (Some []) (Some ''other'') sim_pota) = sim_pota \<and>
   fst (snd (POTA_begin (\<lambda>k. True) (Some ''net'') (Some ''pw'') (Some ''sensor2'') (Some ''2.0.0'') (Some [])
          (Some ''other'') sim_pota [])) = sim_pota"
  using failed_validation_commits_nothing [of "Some ''sensor2''" "Some ''2.0.0''" "Some []" "Some ''other''"
      "Caller_Client 1" sim_pota "\<lambda>k. True" "Some ''net''" "Some ''pw''" "[]"]
  by (simp add: param_invalid_def)

text \<open>
  Claim C6, as amended. \<^verbatim>\<open>beginClient\<close> checks the four configuration fields in the order
  device type, firmware version, authentication token, server secret, each for being
  non-null, non-empty and shorter than its capacity (32, 32, 64, 65), and returns the
  error of the first that fails; it calls nothing on the network. \<^verbatim>\<open>begin\<close> checks the
  SSID and then the password (non-null, non-empty) and returns their errors before any
  call on the network. With both present it starts the Wi-Fi association and polls it;
  when the association fails it returns \<^verbatim>\<open>WIFI_CONNECT_FAILED\<close>, whatever the four
  fields are, and only when it succeeds does it check the four fields, in the same order,
  and return the error of the first that fails.
\<close>

theorem begin_check_order:
  "fst (beginClient cl dt fv at ss this) = first_failing (config_checks dt fv at ss)
   \<and> (wifi_param_invalid ssid \<longrightarrow>
        POTA_begin status ssid pw dt fv at ss this io = (PARAMETER_INVALID_SSID, this, io))
   \<and> (\<not> wifi_param_invalid ssid \<and> wifi_param_invalid pw \<longrightarrow>
        POTA_begin status ssid pw dt fv at ss this io = (PARAMETER_INVALID_PASSWORD, this, io))
   \<and> (\<not> wifi_param_invalid ssid \<and> \<not> wifi_param_invalid pw \<longrightarrow>
        (\<exists>up rest.
           wifi_wait status 0 (io @ [WifiBegin (or_empty ssid) (or_empty pw)]) =
             (up, io @ WifiBegin (or_empty ssid) (or_empty pw) # WifiStatus # rest)
         \<and> snd (snd (POTA_begin status ssid pw dt fv at ss this io)) =
             io @ WifiBegin (or_empty ssid) (or_empty pw) # WifiStatus # rest
         \<and> fst (POTA_begin status ssid pw dt fv at ss this io) =
             (if up then first_failing (config_checks dt fv at ss) else WIFI_CONNECT_FAILED)))"
proof -
  let ?io0 = "io @ [WifiBegin (or_empty ssid) (or_empty pw)]"
  obtain rest where rest: "snd (wifi_wait status 0 ?io0) = ?io0 @ WifiStatus # rest"
    using wifi_wait_extends [of status 0 ?io0] by blast
  have w: "wifi_wait status 0 ?io0 =
        (fst (wifi_wait status 0 ?io0), io @ WifiBegin (or_empty ssid) (or_empty pw) # WifiStatus # rest)"
    using rest by (simp add: prod_eq_iff)
  have "\<not> wifi_param_invalid ssid \<and> \<not> wifi_param_invalid pw \<longrightarrow>
        (\<exists>up rest.
           wifi_wait status 0 ?io0 =
             (up, io @ WifiBegin (or_empty ssid) (or_empty pw) # WifiStatus # rest)
         \<and> snd (snd (POTA_begin status ssid pw dt fv at ss this io)) =
             io @ WifiBegin (or_empty ssid) (or_empty pw) # WifiStatus # rest
         \<and> fst (POTA_begin status ssid pw dt fv at ss this io) =
             (if up then first_failing (config_checks dt fv at ss) else WIFI_CONNECT_FAILED))"
    apply (intro impI exI [of _ "fst (wifi_wait status 0 ?io0)"] exI [of _ rest])
    using rest by (simp add: POTA_begin_unfold Let_def beginClient_first_failing prod_eq_iff)
  then show ?thesis
    by (simp add: beginClient_first_failing POTA_begin_unfold)
qed

theorem begin_check_order_witness:
  "(\<exists>rest. snd (snd (POTA_begin (\<lambda>k. 2 \<le> k) (Some ''net'') (Some ''pw'') (Some ''sensor1'')
              (Some ''a firmware version of more than 31 bytes'') None (Some ''s3cr3t'') POTA_new [])) =
            WifiBegin ''net'' ''pw'' # WifiStatus # rest)
   \<and> fst (POTA_begin (\<lambda>k. 2 \<le> k) (Some ''net'') (Some ''pw'') (Some ''sensor1'')
              (Some ''a firmware version of more than 31 bytes'') None (Some ''s3cr3t'') POTA_new []) =
       PARAMETER_INVALID_FWVERSION"
proof -
  let ?fv = "Some ''a firmware version of more than 31 bytes''"
  have pre: "\<not> wifi_param_invalid (Some ''net'') \<and> \<not> wifi_param_invalid (Some ''pw'')"
    by (simp add: wifi_param_invalid_def)
  have names: "or_empty (Some ''net'') = ''net''" "or_empty (Some ''pw'') = ''pw''"
    by (simp_all add: or_empty_def)
  have ff: "first_failing (config_checks (Some ''sensor1'') ?fv None (Some ''s3cr3t'')) =
            PARAMETER_INVALID_FWVERSION"
    by (simp add: config_checks_def param_invalid_def)
  have up: "fst (wifi_wait (\<lambda>k. 2 \<le> k) 0 ([] @ [WifiBegin ''net'' ''pw''])) = True"
    by (subst wifi_wait.simps, simp add: Let_def, subst wifi_wait.simps, simp add: Let_def,
        subst wifi_wait.simps, simp add: Let_def)
  from begin_check_order [of "Caller_Client 0" "Some ''sensor1''" ?fv None "Some ''s3cr3t''"
      POTA_new "Some ''net''" "\<lambda>k. 2 \<le> k" "Some ''pw''" "[]",
      THEN conjunct2, THEN conjunct2, THEN conjunct2, rule_format, OF pre]
  obtain b rest where
    a: "wifi_wait (\<lambda>k. 2 \<le> k) 0 ([] @ [WifiBegin ''net'' ''pw'']) =
          (b, [] @ WifiBegin ''net'' ''pw'' # WifiStatus # rest)"
    and l: "snd (snd (POTA_begin (\<lambda>k. 2 \<le> k) (Some ''net'') (Some ''pw'') (Some ''sensor1'') ?fv
              None (Some ''s3cr3t'') POTA_new [])) = [] @ WifiBegin ''net'' ''pw'' # WifiStatus # rest"
    and r: "fst (POTA_begin (\<lambda>k. 2 \<le> k) (Some ''net'') (Some ''pw'') (Some ''sensor1'') ?fv
              None (Some ''s3cr3t'') POTA_new []) =
            (if b then first_failing (config_checks (Some ''sensor1'') ?fv None (Some ''s3cr3t''))
             else WIFI_CONNECT_FAILED)"
    unfolding names by blast
  from a up have "b" by simp
  with r ff have "fst (POTA_begin (\<lambda>k. 2 \<le> k) (Some ''net'') (Some ''pw'') (Some ''sensor1'') ?fv
              None (Some ''s3cr3t'') POTA_new []) = PARAMETER_INVALID_FWVERSION"
    by simp
  moreover from l have "\<exists>rest. snd (snd (POTA_begin (\<lambda>k. 2 \<le> k) (Some ''net'') (Some ''pw'')
              (Some ''sensor1'') ?fv None (Some ''s3cr3t'') POTA_new [])) =
            WifiBegin ''net'' ''pw'' # WifiStatus # rest"
    by simp
  ultimately show ?thesis by simp
qed

text \<open>
  The claim as it is worded has every invalid parameter reported before any network I/O,
  and the error determined by the first failing field. With a valid SSID and password
  and an empty device type, \<^verbatim>\<open>begin\<close> has called \<^verbatim>\<open>WiFi.begin\<close> and polled the status
  before it returns the error of the device type, and when the association fails it
  returns \<^verbatim>\<open>WIFI_CONNECT_FAILED\<close> instead of that error.
\<close>

theorem begin_validates_after_wifi_counterexample:
  "POTA_begin (\<lambda>k. True) (Some ''net'') (Some ''pw'') (Some []) (Some ''1.0.0'') (Some ''abc'')
       (Some ''s3cr3t'') POTA_new [] =
     (PARAMETER_INVALID_DEVICETYPE, POTA_new, [WifiBegin ''net'' ''pw'', WifiStatus])
   \<and> fst (POTA_begin (\<lambda>k. False) (Some ''net'') (Some ''pw'') (Some []) (Some ''1.0.0'') (Some ''abc'')
       (Some ''s3cr3t'') POTA_new []) = WIFI_CONNECT_FAILED"
proof -
  have "wifi_wait (\<lambda>k. True) 0 [WifiBegin ''net'' ''pw''] = (True, [WifiBegin ''net'' ''pw'', WifiStatus])"
    by (subst wifi_wait.simps) (simp add: Let_def)
  then show ?thesis
    by (simp add: POTA_begin_unfold wifi_param_invalid_def or_empty_def wifi_wait_never
          beginClient_def strlen_def Let_def)
qed


section \<open>The check of a parsed response\<close>

subsection \<open>The timestamp in decimal fits its buffer\<close>

lemma length_dec_nat: "n < 10 ^ k \<Longrightarrow> 0 < k \<Longrightarrow> length (dec_nat n) \<le> k"
proof (induction k arbitrary: n)
  case 0
  then show ?case by simp
next
  case (Suc k)
  show ?case
  proof (cases "n < 10")
    case True
    then show ?thesis by (subst dec_nat.simps) simp
  next
    case False
    then have k: "0 < k" using Suc.prems by (cases k) auto
    have "n div 10 < 10 ^ k" using Suc.prems by (simp add: less_mult_imp_div_less mult.commute)
    then have "length (dec_nat (n div 10)) \<le> k" using k by (rule Suc.IH)
    with False show ?thesis by (subst dec_nat.simps) simp
  qed
qed

lemma length_dec_int: "- (2 ^ 31) \<le> i \<Longrightarrow> i < 2 ^ 31 \<Longrightarrow> length (dec_int i) \<le> 11"
proof -
  assume r: "- (2 ^ 31) \<le> i" "i < 2 ^ 31"
  have "nat \<bar>i\<bar> < 10 ^ 10" using r by simp
  then have "length (dec_nat (nat \<bar>i\<bar>)) \<le> 10" by (rule length_dec_nat) simp
  then show ?thesis by (auto simp: dec_int_def abs_if split: if_splits)
qed

lemma or_int_range: "- (2 ^ 31) \<le> or_int v 0 \<and> or_int v 0 < 2 ^ 31"
  by (simp add: or_int_def split: option.splits json.splits)

lemma timestampStr_exact:
  "- (2 ^ 31) \<le> i \<Longrightarrow> i < 2 ^ 31 \<Longrightarrow> snprintf 32 (dec_int i) = (int (length (dec_int i)), dec_int i)"
  using length_dec_int [of i] by (simp add: snprintf_def)

lemma extract_timestamp_range:
  "- (2 ^ 31) \<le> r_timestampValue (extract_fields doc) \<and> r_timestampValue (extract_fields doc) < 2 ^ 31"
  using or_int_range by (simp add: extract_fields_def)


lemma verify_response_error:
  "r_errorMsg r \<noteq> [] \<Longrightarrow>
   verify_response P secret sz r w = ((SERVER_ERROR_4XX, []), w)"
  by (simp add: verify_response_def strlen_def split: prod.splits)

lemma verify_response_long:
  assumes ts: "- (2 ^ 31) \<le> r_timestampValue r" "r_timestampValue r < 2 ^ 31"
    and "r_errorMsg r = []" and "512 \<le> length (response_message r)"
  shows "verify_response P secret sz r w =
           ((TOKEN_GENERATION_FAILED, []), log_step GenerateServerToken w)"
proof -
  have "generateServerToken (hmac_sha256 P) (r_update r) (Some (r_version r)) (Some (r_url r))
          (Some (r_checksum r)) (Some (r_protocol_version r)) (Some (r_notes r))
          (Some (dec_int (r_timestampValue r))) (Some secret) (Some (replicate 65 NUL)) 65 =
        Inl TOKEN_GENERATION_FAILED"
    using assms(4) by (intro generateServerToken_long) (simp_all add: or_empty_def response_message_def)
  then show ?thesis
    using assms(3) by (simp add: verify_response_def timestampStr_exact [OF ts] strlen_def)
qed

lemma verify_response_short:
  assumes ts: "- (2 ^ 31) \<le> r_timestampValue r" "r_timestampValue r < 2 ^ 31"
    and "r_errorMsg r = []" and "length (response_message r) < 512"
    and "length (hmac_sha256 P secret (response_message r)) = 32"
  shows "verify_response P secret sz r w =
           (if r_server_token r \<noteq> hex_encode (hmac_sha256 P secret (response_message r))
            then ((TOKEN_MISMATCH, []), log_step CompareToken (log_step GenerateServerToken w))
            else if r_update r \<and> take 30 (r_url r) = trusted_prefix
            then ((SUCCESS, take (sz - 1) (r_url r)), log_step CompareToken (log_step GenerateServerToken w))
            else ((NO_UPDATE_AVAILABLE, []), log_step CompareToken (log_step GenerateServerToken w)))"
proof -
  let ?tok = "(hex_loop (hmac_sha256 P secret (response_message r)) (replicate 65 NUL))[64 := NUL]"
  have gen: "generateServerToken (hmac_sha256 P) (r_update r) (Some (r_version r)) (Some (r_url r))
          (Some (r_checksum r)) (Some (r_protocol_version r)) (Some (r_notes r))
          (Some (dec_int (r_timestampValue r))) (Some secret) (Some (replicate 65 NUL)) 65 =
        Inr ?tok"
    using assms(4) generateServerToken_short [of "r_update r" "Some (r_version r)" "Some (r_url r)"
        "Some (r_checksum r)" "Some (r_protocol_version r)" "Some (r_notes r)"
        "Some (dec_int (r_timestampValue r))" 65 "hmac_sha256 P" secret "replicate 65 NUL"]
    by (simp add: or_empty_def response_message_def)
  have tok: "c_str ?tok = hex_encode (hmac_sha256 P secret (response_message r))"
    using assms(5) by (intro hex_loop_encode) simp_all
  have pre: "strncmp_eq (r_url r) (''https://'' @ API_HOST) (strlen (''https://'' @ API_HOST))
             = (take 30 (r_url r) = trusted_prefix)"
  proof -
    have eq: "''https://'' @ API_HOST = trusted_prefix"
      by (simp add: API_HOST_def trusted_prefix_def)
    have len: "length trusted_prefix = 30"
      by (simp add: trusted_prefix_def)
    show ?thesis
      unfolding strncmp_eq_def strlen_def eq len by (simp add: len)
  qed
  show ?thesis
    unfolding verify_response_def pre
    using assms(3)
    by (simp add: timestampStr_exact [OF ts] strlen_def gen tok strncpy_z_def Let_def)
qed

lemma checkOTAUpdate_parsed:
  assumes "m_client this = Some cl" and "outOTAUrlSize \<noteq> 0"
    and "exchange P this w = Some (Inr buffer, w6)"
    and "deserializeJson P buffer = Some doc"
  shows "checkOTAUpdate P this (Some out) outOTAUrlSize w =
           Some (case verify_response P (m_serverSecret this) outOTAUrlSize (extract_fields doc)
                        (log_step (DeserializeJson buffer) w6) of
                   ((err, url), w7) \<Rightarrow> ((err, Some url), w7))"
  using assms
  by (simp add: checkOTAUpdate_def process_response_def Let_def split: prod.splits)


subsection \<open>Runs of the scripted platform\<close>

lemma sim_exchange:
  "map_option fst (exchange (sim_platform [(''{}'', doc)] sim_mac) sim_pota (sim_world ''{}'')) = Some (Inr ''{}'')"
  by code_simp

lemma sim_exchange_world:
  "\<exists>w6. exchange (sim_platform [(''{}'', doc)] sim_mac) sim_pota (sim_world ''{}'') = Some (Inr ''{}'', w6)"
  using sim_exchange [of doc]
  by (cases "exchange (sim_platform [(''{}'', doc)] sim_mac) sim_pota (sim_world ''{}'')") auto

lemma sim_parse: "deserializeJson (sim_platform [(''{}'', doc)] mac) ''{}'' = Some doc"
  by (simp add: sim_platform_def)

lemma sim_client: "m_client sim_pota = Some Static_Client"
  by (simp add: sim_pota_def)

lemma sim_secret: "m_serverSecret sim_pota = ''s3cr3t''"
  by (simp add: sim_pota_def)

lemma sim_hmac_platform: "hmac_sha256 (sim_platform tab mac) = sim_hmac"
  by (simp add: sim_platform_def)

lemma length_sim_hmac: "length (sim_hmac key msg) = 32"
  by (simp add: sim_hmac_def)

lemma sim_token_nonempty: "[] \<noteq> hex_encode (sim_hmac key msg)"
  using length_hex_encode [of "sim_hmac key msg"] by (auto simp: length_sim_hmac)

lemma length_response_message:
  "length (response_message r) =
     (if r_update r then 4 else 5) + length (r_version r) + length (r_url r)
       + length (r_checksum r) + length (r_protocol_version r) + length (r_notes r)
       + length (dec_int (r_timestampValue r)) + 6"
  by (simp add: response_message_def canonical_message_def colon_join_def)

lemma dec_int_1000: "dec_int 1000 = ''1000''"
  by code_simp

lemma sim_signed_fields:
  "extract_fields (sim_signed ms) =
     (extract_fields (JObject ms))
       \<lparr>r_server_token := hex_encode (sim_hmac ''s3cr3t'' (response_message (extract_fields (JObject ms))))\<rparr>"
  by (simp add: sim_signed_def extract_fields_def member_def or_cstr_def)

lemma response_message_token: "response_message (r\<lparr>r_server_token := t\<rparr>) = response_message r"
  by (simp add: response_message_def)

lemma sim_run:
  assumes "sz \<noteq> 0"
  shows "\<exists>w6. checkOTAUpdate (sim_platform [(''{}'', doc)] sim_mac) sim_pota (Some []) sz (sim_world ''{}'') =
           Some (case verify_response (sim_platform [(''{}'', doc)] sim_mac) ''s3cr3t'' sz
                        (extract_fields doc) (log_step (DeserializeJson ''{}'') w6) of
                   ((err, url), w7) \<Rightarrow> ((err, Some url), w7))"
proof -
  obtain w6 where ex: "exchange (sim_platform [(''{}'', doc)] sim_mac) sim_pota (sim_world ''{}'') = Some (Inr ''{}'', w6)"
    using sim_exchange_world by blast
  show ?thesis
    using checkOTAUpdate_parsed [OF sim_client assms ex sim_parse, of "[]"]
    by (auto simp: sim_secret)
qed

subsection \<open>Errors declared by the server\<close>

text \<open>
  Claim C4. When the exchange has delivered a body, the parser has accepted it, and the
  \<^verbatim>\<open>error\<close> member of the document is a non-empty string, \<^verbatim>\<open>checkOTAUpdate\<close> returns
  \<^verbatim>\<open>SERVER_ERROR_4XX\<close>, and after the exchange it has done nothing but hand the buffer to
  the parser: the expected token is neither generated nor compared.
\<close>

theorem server_error_skips_verification:
  assumes "m_client this = Some cl" and "outOTAUrlSize \<noteq> 0"
    and "exchange P this w = Some (Inr buffer, w6)"
    and "deserializeJson P buffer = Some doc"
    and "member doc ''error'' = Some (JString e)" and "e \<noteq> []"
  shows "\<exists>w'. checkOTAUpdate P this (Some out) outOTAUrlSize w =
                 Some ((SERVER_ERROR_4XX, Some []), w')
              \<and> calls w' = calls w6 @ [DeserializeJson buffer]"
proof -
  have "r_errorMsg (extract_fields doc) \<noteq> []"
    using assms(5,6) by (simp add: extract_fields_def or_cstr_def)
  then have "verify_response P (m_serverSecret this) outOTAUrlSize (extract_fields doc)
               (log_step (DeserializeJson buffer) w6) =
             ((SERVER_ERROR_4XX, []), log_step (DeserializeJson buffer) w6)"
    by (rule verify_response_error)
  then have "checkOTAUpdate P this (Some out) outOTAUrlSize w =
             Some ((SERVER_ERROR_4XX, Some []), log_step (DeserializeJson buffer) w6)"
    using checkOTAUpdate_parsed [OF assms(1-4), of out] by simp
  then show ?thesis by (simp add: log_step_def)
qed

theorem server_error_skips_verification_witness:
  "map_option fst (checkOTAUpdate
       (sim_platform [(''{}'', JObject ((''error'', JString ''device not recognized'') # sim_fields))] sim_mac)
       sim_pota (Some []) 256 (sim_world ''{}'')) = Some (SERVER_ERROR_4XX, Some [])"
proof -
  let ?doc = "JObject ((''error'', JString ''device not recognized'') # sim_fields)"
  obtain w6 where ex: "exchange (sim_platform [(''{}'', ?doc)] sim_mac) sim_pota (sim_world ''{}'') = Some (Inr ''{}'', w6)"
    using sim_exchange_world by blast
  have m: "member ?doc ''error'' = Some (JString ''device not recognized'')"
    by (simp add: member_def)
  have sz: "(256::nat) \<noteq> 0" and ne: "''device not recognized'' \<noteq> []" by simp_all
  from server_error_skips_verification [OF sim_client sz ex sim_parse m ne, of "[]"]
  show ?thesis by auto
qed

subsection \<open>A token that does not match\<close>

text \<open>
  Claim C2, as amended. For every parsed response whose \<^verbatim>\<open>server_token\<close> differs from the
  hexadecimal encoding of HMAC-SHA256 of its canonical message under the stored secret
  (an empty or missing token included), \<^verbatim>\<open>checkOTAUpdate\<close> rejects the update and leaves
  the output url empty: it returns \<^verbatim>\<open>SERVER_ERROR_4XX\<close> when the response carries an error
  message, \<^verbatim>\<open>TOKEN_GENERATION_FAILED\<close> when there is none and the canonical message has 512
  bytes or more, and \<^verbatim>\<open>TOKEN_MISMATCH\<close> otherwise. In no case does it return SUCCESS,
  whatever the update flag is.
\<close>

theorem token_mismatch_rejected:
  assumes "m_client this = Some cl" and "outOTAUrlSize \<noteq> 0"
    and "exchange P this w = Some (Inr buffer, w6)"
    and "deserializeJson P buffer = Some doc"
    and "length (hmac_sha256 P (m_serverSecret this) (response_message (extract_fields doc))) = 32"
    and "r_server_token (extract_fields doc) \<noteq>
           hex_encode (hmac_sha256 P (m_serverSecret this) (response_message (extract_fields doc)))"
  shows "\<exists>w'. checkOTAUpdate P this (Some out) outOTAUrlSize w =
           Some ((if r_errorMsg (extract_fields doc) \<noteq> [] then SERVER_ERROR_4XX
                  else if 512 \<le> length (response_message (extract_fields doc))
                    then TOKEN_GENERATION_FAILED
                  else TOKEN_MISMATCH, Some []), w')"
proof -
  let ?r = "extract_fields doc"
  let ?w = "log_step (DeserializeJson buffer) w6"
  note ts = extract_timestamp_range [of doc, THEN conjunct1] extract_timestamp_range [of doc, THEN conjunct2]
  note parsed = checkOTAUpdate_parsed [OF assms(1-4), of out]
  show ?thesis
  proof (cases "r_errorMsg ?r \<noteq> []")
    case True
    then show ?thesis
      using parsed by (simp add: verify_response_error)
  next
    case noerr: False
    show ?thesis
    proof (cases "512 \<le> length (response_message ?r)")
      case True
      with noerr show ?thesis
        using parsed by (simp add: verify_response_long [OF ts])
    next
      case False
      then have short: "length (response_message ?r) < 512" by simp
      from noerr have e: "r_errorMsg ?r = []" by simp
      show ?thesis
        using parsed noerr False assms(6)
        by (simp add: verify_response_short [OF ts e short assms(5)])
    qed
  qed
qed

theorem token_mismatch_rejected_witness:
  "map_option fst (checkOTAUpdate (sim_platform [(''{}'', JObject sim_fields)] sim_mac)
       sim_pota (Some []) 256 (sim_world ''{}'')) = Some (TOKEN_MISMATCH, Some [])"
proof -
  let ?doc = "JObject sim_fields"
  let ?P = "sim_platform [(''{}'', ?doc)] sim_mac"
  obtain w6 where ex: "exchange ?P sim_pota (sim_world ''{}'') = Some (Inr ''{}'', w6)"
    using sim_exchange_world by blast
  have sz: "(256::nat) \<noteq> 0" by simp
  have h1: "length (hmac_sha256 ?P (m_serverSecret sim_pota) (response_message (extract_fields ?doc))) = 32"
    by (simp add: sim_hmac_platform length_sim_hmac)
  have t: "r_server_token (extract_fields ?doc) = []"
    by (simp add: extract_fields_def member_def sim_fields_def or_cstr_def)
  have h2: "r_server_token (extract_fields ?doc) \<noteq>
           hex_encode (hmac_sha256 ?P (m_serverSecret sim_pota) (response_message (extract_fields ?doc)))"
    unfolding t sim_hmac_platform by (rule sim_token_nonempty)
  have e: "r_errorMsg (extract_fields ?doc) = []"
    by (simp add: extract_fields_def member_def sim_fields_def or_cstr_def)
  have l: "\<not> 512 \<le> length (response_message (extract_fields ?doc))"
    by (simp add: length_response_message extract_fields_def member_def sim_fields_def
          or_cstr_def or_bool_def or_int_def dec_int_1000)
  from token_mismatch_rejected [OF sim_client sz ex sim_parse h1 h2, of "[]"]
  show ?thesis by (auto simp: e l)
qed

text \<open>
  The claim as it is worded has \<^verbatim>\<open>TOKEN_MISMATCH\<close> for every parsed response with a wrong
  token. A response with an error message and no token is answered with
  \<^verbatim>\<open>SERVER_ERROR_4XX\<close>, and one with notes of 600 bytes and no token with
  \<^verbatim>\<open>TOKEN_GENERATION_FAILED\<close>.
\<close>

theorem token_mismatch_other_errors_counterexample:
  "map_option fst (checkOTAUpdate
       (sim_platform [(''{}'', JObject ((''error'', JString ''device not recognized'') # sim_fields))] sim_mac)
       sim_pota (Some []) 256 (sim_world ''{}'')) = Some (SERVER_ERROR_4XX, Some [])
   \<and> r_server_token (extract_fields (JObject ((''error'', JString ''device not recognized'') # sim_fields))) \<noteq>
       hex_encode (sim_hmac ''s3cr3t'' (response_message
         (extract_fields (JObject ((''error'', JString ''device not recognized'') # sim_fields)))))
   \<and> map_option fst (checkOTAUpdate
       (sim_platform [(''{}'', JObject ((''notes'', JString (replicate 600 CHR ''n'')) # sim_fields))] sim_mac)
       sim_pota (Some []) 256 (sim_world ''{}'')) = Some (TOKEN_GENERATION_FAILED, Some [])
   \<and> r_server_token (extract_fields (JObject ((''notes'', JString (replicate 600 CHR ''n'')) # sim_fields))) \<noteq>
       hex_encode (sim_hmac ''s3cr3t'' (response_message
         (extract_fields (JObject ((''notes'', JString (replicate 600 CHR ''n'')) # sim_fields)))))"
proof -
  let ?d1 = "JObject ((''error'', JString ''device not recognized'') # sim_fields)"
  let ?d2 = "JObject ((''notes'', JString (replicate 600 CHR ''n'')) # sim_fields)"
  have sz: "(256::nat) \<noteq> 0" by simp
  have e1: "r_errorMsg (extract_fields ?d1) \<noteq> []"
    by (simp add: extract_fields_def member_def or_cstr_def)
  have t1: "r_server_token (extract_fields ?d1) = []"
    by (simp add: extract_fields_def member_def sim_fields_def or_cstr_def)
  have e2: "r_errorMsg (extract_fields ?d2) = []"
    by (simp add: extract_fields_def member_def sim_fields_def or_cstr_def)
  have t2: "r_server_token (extract_fields ?d2) = []"
    by (simp add: extract_fields_def member_def sim_fields_def or_cstr_def)
  have l2: "512 \<le> length (response_message (extract_fields ?d2))"
    by (simp add: length_response_message extract_fields_def member_def or_cstr_def)
  note ts2 = extract_timestamp_range [of ?d2, THEN conjunct1] extract_timestamp_range [of ?d2, THEN conjunct2]
  have r1: "map_option fst (checkOTAUpdate (sim_platform [(''{}'', ?d1)] sim_mac) sim_pota (Some []) 256
              (sim_world ''{}'')) = Some (SERVER_ERROR_4XX, Some [])"
    using sim_run [OF sz, of ?d1] by (auto simp: verify_response_error [OF e1])
  have r2: "map_option fst (checkOTAUpdate (sim_platform [(''{}'', ?d2)] sim_mac) sim_pota (Some []) 256
              (sim_world ''{}'')) = Some (TOKEN_GENERATION_FAILED, Some [])"
    using sim_run [OF sz, of ?d2] by (auto simp: verify_response_long [OF ts2 e2 l2])
  show ?thesis
    unfolding t1 t2 using r1 r2 sim_token_nonempty by blast
qed

subsection \<open>A canonical message of 512 bytes or more\<close>

text \<open>
  Claim C10, as amended. For every parsed response whose canonical message has 512 bytes
  or more, \<^verbatim>\<open>generateServerToken\<close> returns \<^verbatim>\<open>TOKEN_GENERATION_FAILED\<close>. When the response
  carries no error message, \<^verbatim>\<open>checkOTAUpdate\<close> returns that error, after the generation
  and before any comparison of tokens; when it carries one, \<^verbatim>\<open>checkOTAUpdate\<close> returns
  \<^verbatim>\<open>SERVER_ERROR_4XX\<close> and the generation is not attempted. Either way such a response
  never verifies.
\<close>

theorem long_message_fails_generation:
  assumes "m_client this = Some cl" and "outOTAUrlSize \<noteq> 0"
    and "exchange P this w = Some (Inr buffer, w6)"
    and "deserializeJson P buffer = Some doc"
    and "r = extract_fields doc"
    and "512 \<le> length (response_message r)"
  shows "generateServerToken (hmac_sha256 P) (r_update r) (Some (r_version r)) (Some (r_url r))
           (Some (r_checksum r)) (Some (r_protocol_version r)) (Some (r_notes r))
           (Some (dec_int (r_timestampValue r))) (Some (m_serverSecret this))
           (Some (replicate 65 NUL)) 65 = Inl TOKEN_GENERATION_FAILED
       \<and> (\<exists>w'. checkOTAUpdate P this (Some out) outOTAUrlSize w =
                  Some ((if r_errorMsg r = [] then TOKEN_GENERATION_FAILED else SERVER_ERROR_4XX,
                         Some []), w')
               \<and> calls w' = calls w6 @ (if r_errorMsg r = []
                                         then [DeserializeJson buffer, GenerateServerToken]
                                         else [DeserializeJson buffer]))"
proof -
  note ts = extract_timestamp_range [of doc, THEN conjunct1] extract_timestamp_range [of doc, THEN conjunct2]
  note parsed = checkOTAUpdate_parsed [OF assms(1-4), of out]
  have long: "512 \<le> length (response_message (extract_fields doc))"
    using assms(5,6) by simp
  have gen: "generateServerToken (hmac_sha256 P) (r_update r) (Some (r_version r)) (Some (r_url r))
           (Some (r_checksum r)) (Some (r_protocol_version r)) (Some (r_notes r))
           (Some (dec_int (r_timestampValue r))) (Some (m_serverSecret this))
           (Some (replicate 65 NUL)) 65 = Inl TOKEN_GENERATION_FAILED"
    using assms(6) by (intro generateServerToken_long) (simp_all add: or_empty_def response_message_def)
  have chk: "\<exists>w'. checkOTAUpdate P this (Some out) outOTAUrlSize w =
                  Some ((if r_errorMsg r = [] then TOKEN_GENERATION_FAILED else SERVER_ERROR_4XX,
                         Some []), w')
               \<and> calls w' = calls w6 @ (if r_errorMsg r = []
                                         then [DeserializeJson buffer, GenerateServerToken]
                                         else [DeserializeJson buffer])"
  proof (cases "r_errorMsg (extract_fields doc) = []")
    case True
    then show ?thesis
      using parsed assms(5) by (simp add: verify_response_long [OF ts True long] log_step_def)
  next
    case False
    then show ?thesis
      using parsed assms(5) by (simp add: verify_response_error log_step_def)
  qed
  from gen chk show ?thesis by (rule conjI)
qed

theorem long_message_fails_generation_witness:
  "map_option fst (checkOTAUpdate
       (sim_platform [(''{}'', sim_signed ((''notes'', JString (replicate 600 CHR ''n'')) # sim_fields))] sim_mac)
       sim_pota (Some []) 256 (sim_world ''{}'')) = Some (TOKEN_GENERATION_FAILED, Some [])"
proof -
  let ?doc = "sim_signed ((''notes'', JString (replicate 600 CHR ''n'')) # sim_fields)"
  let ?P = "sim_platform [(''{}'', ?doc)] sim_mac"
  obtain w6 where ex: "exchange ?P sim_pota (sim_world ''{}'') = Some (Inr ''{}'', w6)"
    using sim_exchange_world by blast
  have sz: "(256::nat) \<noteq> 0" by simp
  have e: "r_errorMsg (extract_fields ?doc) = []"
    by (simp add: sim_signed_def extract_fields_def member_def sim_fields_def or_cstr_def)
  have l: "512 \<le> length (response_message (extract_fields ?doc))"
    unfolding sim_signed_fields response_message_token
    by (simp add: length_response_message extract_fields_def member_def or_cstr_def)
  from long_message_fails_generation [OF sim_client sz ex sim_parse refl l, of "[]"]
  show ?thesis by (auto simp: e)
qed

text \<open>
  The claim as it is worded has \<^verbatim>\<open>checkOTAUpdate\<close> return \<^verbatim>\<open>TOKEN_GENERATION_FAILED\<close>
  for every such response. With an error message and notes of 600 bytes it returns
  \<^verbatim>\<open>SERVER_ERROR_4XX\<close>.
\<close>

theorem long_message_server_error_counterexample:
  "map_option fst (checkOTAUpdate
       (sim_platform [(''{}'', JObject ((''error'', JString ''device not recognized'') #
                                       (''notes'', JString (replicate 600 CHR ''n'')) # sim_fields))] sim_mac)
       sim_pota (Some []) 256 (sim_world ''{}'')) = Some (SERVER_ERROR_4XX, Some [])
   \<and> 512 \<le> length (response_message (extract_fields
         (JObject ((''error'', JString ''device not recognized'') #
                   (''notes'', JString (replicate 600 CHR ''n'')) # sim_fields))))"
proof -
  let ?d = "JObject ((''error'', JString ''device not recognized'') #
                     (''notes'', JString (replicate 600 CHR ''n'')) # sim_fields)"
  have sz: "(256::nat) \<noteq> 0" by simp
  have e: "r_errorMsg (extract_fields ?d) \<noteq> []"
    by (simp add: extract_fields_def member_def or_cstr_def)
  have l: "512 \<le> length (response_message (extract_fields ?d))"
    by (simp add: length_response_message extract_fields_def member_def or_cstr_def)
  have r: "map_option fst (checkOTAUpdate (sim_platform [(''{}'', ?d)] sim_mac) sim_pota (Some []) 256
              (sim_world ''{}'')) = Some (SERVER_ERROR_4XX, Some [])"
    using sim_run [OF sz, of ?d] by (auto simp: verify_response_error [OF e])
  from r l show ?thesis by (rule conjI)
qed

section \<open>The exchange with the server\<close>

lemma calls_stop: "calls (stop P w) = calls w @ [Stop]"
  by (simp add: stop_def)

lemma connect_calls:
  "connect P host port w = (ok, w2) \<Longrightarrow> calls w2 = calls w @ [Connect host port]"
  by (auto simp: connect_def split: prod.splits)

lemma readBytes_calls:
  "readBytes P n w = (bytes, w5) \<Longrightarrow> calls w5 = calls w @ [ReadBytes n]"
  by (auto simp: readBytes_def split: prod.splits)

lemma build_request_length:
  "build_request P this =
     (int (length (request_format (getSecureMACAddress P) (m_deviceType this)
                     (m_firmwareVersion this) POTA_PROTOCOL_VERSION (m_authToken this))),
      take 1023 (request_format (getSecureMACAddress P) (m_deviceType this)
                     (m_firmwareVersion this) POTA_PROTOCOL_VERSION (m_authToken this)))"
  by (simp add: build_request_def snprintf_def)

lemma sim_send_tls: "tls (send_request (sim_platform tab mac) n b w) = tls w"
  by (simp add: send_request_def println_def print_def sim_platform_def Let_def)

lemma sim_await:
  assumes "link_up (tls w)" and "inbox (tls w) \<noteq> []"
  shows "await_response (sim_platform tab mac) w =
           Some \<lparr>tls = tls w, calls = calls w @ [Connected, Available]\<rparr>"
  using assms
  by (subst await_response.simps) (simp add: connected_def available_def sim_platform_def)

lemma sim_status_line:
  "sim_readBytesUntil (CHR 0x0A) 127 \<lparr>inbox = sim_headers @ body, link_up = u\<rparr> =
     (''HTTP/1.1 200 OK'' @ [CHR 0x0D], \<lparr>inbox = CHR 0x0D # CHR 0x0A # body, link_up = u\<rparr>)"
  by (simp add: sim_readBytesUntil_def sim_headers_def Let_def)

lemma sim_blank_line:
  "sim_readBytesUntil (CHR 0x0A) 127 \<lparr>inbox = CHR 0x0D # CHR 0x0A # body, link_up = u\<rparr> =
     ([CHR 0x0D], \<lparr>inbox = body, link_up = u\<rparr>)"
  by (simp add: sim_readBytesUntil_def Let_def)

lemma sim_skip:
  assumes "tls w = \<lparr>inbox = sim_headers @ body, link_up = u\<rparr>"
  shows "skip_headers (sim_platform tab mac) w =
           Some \<lparr>tls = \<lparr>inbox = body, link_up = u\<rparr>,
                 calls = calls w @ [Available, ReadBytesUntil (CHR 0x0A) 127,
                                    Available, ReadBytesUntil (CHR 0x0A) 127]\<rparr>"
proof -
  let ?P = "sim_platform tab mac"
  let ?w1 = "\<lparr>tls = \<lparr>inbox = CHR 0x0D # CHR 0x0A # body, link_up = u\<rparr>,
              calls = calls w @ [Available, ReadBytesUntil (CHR 0x0A) 127]\<rparr>"
  have ops: "cl_available ?P = (\<lambda>c. (length (inbox c), c))" "cl_readBytesUntil ?P = sim_readBytesUntil"
    by (simp_all add: sim_platform_def)
  have one: "skip_headers ?P w = skip_headers ?P ?w1"
    apply (subst skip_headers.simps)
    apply (simp add: available_def readBytesUntil_def ops assms sim_status_line c_str_def NUL_def)
    apply (simp add: sim_headers_def)
    done
  have two: "skip_headers ?P ?w1 =
           Some \<lparr>tls = \<lparr>inbox = body, link_up = u\<rparr>,
                 calls = calls w @ [Available, ReadBytesUntil (CHR 0x0A) 127,
                                    Available, ReadBytesUntil (CHR 0x0A) 127]\<rparr>"
    apply (subst skip_headers.simps)
    apply (simp add: available_def readBytesUntil_def ops sim_blank_line c_str_def NUL_def)
    done
  from one two show ?thesis by simp
qed


subsection \<open>Bounds of the buffer\<close>

text \<open>
  Claim C5. Once the connection is made: when the request body would have 1024 bytes or
  more, \<^verbatim>\<open>checkOTAUpdate\<close> returns \<^verbatim>\<open>BUFFER_OVERFLOW_REQUEST\<close>, and what it has called on
  the client is the trust anchor, the connection and the stop, with no write between
  them. When the request fits, the waits end, and the read of the body delivers 1023
  bytes or more, it returns \<^verbatim>\<open>BUFFER_OVERFLOW_RESPONSE\<close>, and after the read it has only
  stopped the client: the buffer is not handed to the JSON parser.
\<close>

theorem framing_bounds_abort:
  assumes "m_client this = Some cl" and "outOTAUrlSize \<noteq> 0"
    and "connect P API_HOST 443 (setTrustAnchor P w) = (True, w2)"
    and "req = request_format (getSecureMACAddress P) (m_deviceType this) (m_firmwareVersion this)
                 POTA_PROTOCOL_VERSION (m_authToken this)"
  shows "(1024 \<le> length req \<longrightarrow>
            checkOTAUpdate P this (Some out) outOTAUrlSize w =
              Some ((BUFFER_OVERFLOW_REQUEST, Some []), stop P w2)
            \<and> calls (stop P w2) = calls w @ [SetTrustAnchor, Connect API_HOST 443, Stop])
       \<and> (length req < 1024
            \<and> await_response P (send_request P (int (length req)) req w2) = Some w3
            \<and> skip_headers P w3 = Some w4
            \<and> readBytes P 1023 w4 = (bytes, w5)
            \<and> 1023 \<le> length bytes \<longrightarrow>
            checkOTAUpdate P this (Some out) outOTAUrlSize w =
              Some ((BUFFER_OVERFLOW_RESPONSE, Some []), stop P w5)
            \<and> calls (stop P w5) = calls w4 @ [ReadBytes 1023, Stop])"
proof (intro conjI impI)
  assume big: "1024 \<le> length req"
  have "exchange P this w = Some (Inl BUFFER_OVERFLOW_REQUEST, stop P w2)"
    using assms(3) big unfolding assms(4)
    by (simp add: exchange_def build_request_length Let_def)
  then show "checkOTAUpdate P this (Some out) outOTAUrlSize w =
               Some ((BUFFER_OVERFLOW_REQUEST, Some []), stop P w2)"
    using assms(1,2) by (simp add: checkOTAUpdate_def)
  show "calls (stop P w2) = calls w @ [SetTrustAnchor, Connect API_HOST 443, Stop]"
    using connect_calls [OF assms(3)] by (simp add: calls_stop setTrustAnchor_def)
next
  assume h: "length req < 1024
            \<and> await_response P (send_request P (int (length req)) req w2) = Some w3
            \<and> skip_headers P w3 = Some w4
            \<and> readBytes P 1023 w4 = (bytes, w5)
            \<and> 1023 \<le> length bytes"
  then have "exchange P this w = Some (Inl BUFFER_OVERFLOW_RESPONSE, stop P w5)"
    using assms(3) unfolding assms(4)
    by (simp add: exchange_def build_request_length Let_def)
  then show "checkOTAUpdate P this (Some out) outOTAUrlSize w =
               Some ((BUFFER_OVERFLOW_RESPONSE, Some []), stop P w5)"
    using assms(1,2) by (simp add: checkOTAUpdate_def)
  show "calls (stop P w5) = calls w4 @ [ReadBytes 1023, Stop]"
    using h readBytes_calls [of P 1023 w4 bytes w5] by (simp add: calls_stop)
qed


theorem framing_bounds_abort_witness:
  "map_option (\<lambda>r. (fst r, calls (snd r)))
     (checkOTAUpdate (sim_platform [] (replicate 1000 CHR ''A'')) sim_pota (Some []) 256 (sim_world ''{}'')) =
     Some ((BUFFER_OVERFLOW_REQUEST, Some []), [SetTrustAnchor, Connect API_HOST 443, Stop])
   \<and> map_option fst
     (checkOTAUpdate (sim_platform [] sim_mac) sim_pota (Some []) 256 (sim_world (replicate 1023 CHR ''x''))) =
     Some (BUFFER_OVERFLOW_RESPONSE, Some [])"
proof -
  have sz: "(256::nat) \<noteq> 0" by simp
  let ?P1 = "sim_platform [] (replicate 1000 CHR ''A'')"
  let ?req1 = "request_format (getSecureMACAddress ?P1) (m_deviceType sim_pota)
                 (m_firmwareVersion sim_pota) POTA_PROTOCOL_VERSION (m_authToken sim_pota)"
  let ?v2 = "snd (connect ?P1 API_HOST 443 (setTrustAnchor ?P1 (sim_world ''{}'')))"
  have c1: "connect ?P1 API_HOST 443 (setTrustAnchor ?P1 (sim_world ''{}'')) = (True, ?v2)"
    by (simp add: connect_def setTrustAnchor_def sim_platform_def sim_world_def)
  have big: "1024 \<le> length ?req1"
    by (simp add: request_format_def sim_platform_def)
  have calls0: "calls (sim_world ''{}'') = []"
    by (simp add: sim_world_def)
  from framing_bounds_abort [OF sim_client sz c1 refl, where out = "[]",
      THEN conjunct1, rule_format, OF big]
  have first: "map_option (\<lambda>r. (fst r, calls (snd r)))
     (checkOTAUpdate ?P1 sim_pota (Some []) 256 (sim_world ''{}'')) =
     Some ((BUFFER_OVERFLOW_REQUEST, Some []), [SetTrustAnchor, Connect API_HOST 443, Stop])"
    by (simp add: calls0)
  let ?body = "replicate 1023 CHR ''x''"
  let ?P2 = "sim_platform [] sim_mac"
  let ?w = "sim_world ?body"
  let ?req2 = "request_format (getSecureMACAddress ?P2) (m_deviceType sim_pota)
                 (m_firmwareVersion sim_pota) POTA_PROTOCOL_VERSION (m_authToken sim_pota)"
  let ?w2 = "snd (connect ?P2 API_HOST 443 (setTrustAnchor ?P2 ?w))"
  let ?sent = "send_request ?P2 (int (length ?req2)) ?req2 ?w2"
  let ?w3 = "\<lparr>tls = tls ?sent, calls = calls ?sent @ [Connected, Available]\<rparr>"
  let ?w4 = "\<lparr>tls = \<lparr>inbox = ?body, link_up = True\<rparr>,
              calls = calls ?w3 @ [Available, ReadBytesUntil (CHR 0x0A) 127,
                                   Available, ReadBytesUntil (CHR 0x0A) 127]\<rparr>"
  let ?rb = "readBytes ?P2 1023 ?w4"
  have c2: "connect ?P2 API_HOST 443 (setTrustAnchor ?P2 ?w) = (True, ?w2)"
    by (simp add: connect_def setTrustAnchor_def sim_platform_def sim_world_def)
  have t2: "tls ?sent = \<lparr>inbox = sim_headers @ ?body, link_up = True\<rparr>"
    unfolding sim_send_tls
    by (simp add: connect_def setTrustAnchor_def sim_platform_def sim_world_def)
  have small: "length ?req2 < 1024"
    by (simp add: request_format_def sim_platform_def sim_pota_def sim_mac_def POTA_PROTOCOL_VERSION_def)
  have a: "await_response ?P2 ?sent = Some ?w3"
    by (rule sim_await) (simp_all add: t2 sim_headers_def)
  have b: "skip_headers ?P2 ?w3 = Some ?w4"
    using sim_skip [of ?w3 ?body True "[]" sim_mac] t2 by simp
  have r: "?rb = (fst ?rb, snd ?rb)"
    by simp
  have n: "1023 \<le> length (fst ?rb)"
    by (simp add: readBytes_def sim_platform_def)
  from framing_bounds_abort [OF sim_client sz c2 refl,
      where out = "[]" and ?w3.0 = ?w3 and ?w4.0 = ?w4 and bytes = "fst ?rb" and ?w5.0 = "snd ?rb",
      THEN conjunct2, rule_format, OF conjI [OF small conjI [OF a conjI [OF b conjI [OF r n]]]]]
  have second: "map_option fst (checkOTAUpdate ?P2 sim_pota (Some []) 256 ?w) =
     Some (BUFFER_OVERFLOW_RESPONSE, Some [])"
    by simp
  from first second show ?thesis by (rule conjI)
qed

subsection \<open>The connection is closed at every return\<close>

lemma closed_after_stop:
  assumes "list_all (\<lambda>c. \<not> is_network_call c) q"
  shows "closed_at_return (cs @ Stop # q)"
proof -
  have "dropWhile (\<lambda>c. \<not> is_network_call c) (rev q @ Stop # rev cs) =
        dropWhile (\<lambda>c. \<not> is_network_call c) (Stop # rev cs)"
    using assms by (intro dropWhile_append2) (simp add: list_all_iff)
  then show ?thesis by (simp add: closed_at_return_def)
qed

lemma verify_response_calls:
  "\<exists>q. calls (snd (verify_response P s n r w)) = calls w @ q \<and> list_all (\<lambda>c. \<not> is_network_call c) q"
  by (auto simp: verify_response_def log_step_def Let_def split: prod.splits sum.splits)

lemma process_response_calls:
  "\<exists>q. calls (snd (process_response P s n b w)) = calls w @ q \<and> list_all (\<lambda>c. \<not> is_network_call c) q"
proof (cases "deserializeJson P b")
  case None
  then show ?thesis
    by (simp add: process_response_def log_step_def Let_def)
next
  case (Some doc)
  obtain q where "calls (snd (verify_response P s n (extract_fields doc) (log_step (DeserializeJson b) w))) =
      calls (log_step (DeserializeJson b) w) @ q" and "list_all (\<lambda>c. \<not> is_network_call c) q"
    using verify_response_calls by blast
  then have "calls (snd (process_response P s n b w)) = calls w @ (DeserializeJson b # q)
      \<and> list_all (\<lambda>c. \<not> is_network_call c) (DeserializeJson b # q)"
    using Some by (simp add: process_response_def log_step_def Let_def)
  then show ?thesis by blast
qed

lemma exchange_stops:
  assumes "fst (connect P API_HOST 443 (setTrustAnchor P w))"
    and "exchange P this w = Some (r, w6)"
  shows "\<exists>cs. calls w6 = cs @ [Stop]"
  using assms
  by (auto simp: exchange_def Let_def calls_stop split: prod.splits if_splits option.splits)

text \<open>
  Claim C9. Whenever \<^verbatim>\<open>checkOTAUpdate\<close> returns after a successful connect, with whatever
  result (the url, no update, an overflow of the request or of the response, a parse
  failure, a server error, a failed token generation, a token mismatch), the last call
  it has made on the network is \<^verbatim>\<open>stop()\<close>.
\<close>

theorem channel_closed_at_return:
  assumes "m_client this = Some cl" and "outOTAUrlSize \<noteq> 0"
    and "fst (connect P API_HOST 443 (setTrustAnchor P w))"
    and "checkOTAUpdate P this (Some out) outOTAUrlSize w = Some (res, w')"
  shows "closed_at_return (calls w')"
proof (cases "exchange P this w")
  case None
  then show ?thesis using assms by (simp add: checkOTAUpdate_def)
next
  case (Some a)
  obtain r w6 where a: "a = (r, w6)" by (cases a)
  obtain cs where cs: "calls w6 = cs @ [Stop]"
    using exchange_stops [OF assms(3)] Some a by blast
  show ?thesis
  proof (cases r)
    case (Inl err)
    then have "w' = w6"
      using assms Some a by (simp add: checkOTAUpdate_def)
    then show ?thesis
      using cs closed_after_stop [of "[]" cs] by simp
  next
    case (Inr buffer)
    then have w': "w' = snd (process_response P (m_serverSecret this) outOTAUrlSize buffer w6)"
      using assms Some a by (auto simp: checkOTAUpdate_def Let_def split: prod.splits)
    obtain q where "calls w' = calls w6 @ q" and q: "list_all (\<lambda>c. \<not> is_network_call c) q"
      unfolding w' using process_response_calls by blast
    then have "calls w' = cs @ Stop # q" using cs by simp
    then show ?thesis using closed_after_stop [OF q] by simp
  qed
qed

theorem channel_closed_at_return_witness:
  "closed_at_return (calls (snd (the (checkOTAUpdate (sim_platform [(''{}'', JObject sim_fields)] sim_mac)
       sim_pota (Some []) 256 (sim_world ''{}'')))))"
proof -
  let ?P = "sim_platform [(''{}'', JObject sim_fields)] sim_mac"
  have c: "fst (connect ?P API_HOST 443 (setTrustAnchor ?P (sim_world ''{}'')))"
    by (simp add: connect_def setTrustAnchor_def sim_platform_def sim_world_def)
  have sz: "(256::nat) \<noteq> 0" by simp
  obtain w6 where "checkOTAUpdate ?P sim_pota (Some []) 256 (sim_world ''{}'') =
      Some (case verify_response ?P ''s3cr3t'' 256 (extract_fields (JObject sim_fields))
              (log_step (DeserializeJson ''{}'') w6) of ((err, url), w7) \<Rightarrow> ((err, Some url), w7))"
    using sim_run [OF sz] by blast
  then obtain res w' where r: "checkOTAUpdate ?P sim_pota (Some []) 256 (sim_world ''{}'') = Some (res, w')"
    by (cases "verify_response ?P ''s3cr3t'' 256 (extract_fields (JObject sim_fields))
              (log_step (DeserializeJson ''{}'') w6)") auto
  from channel_closed_at_return [OF sim_client sz c r]
  show ?thesis by (simp add: r)
qed

section \<open>The url handed to the updater\<close>

lemma sim_ota: "ota_apply (sim_platform tab mac) u = SUCCESS"
  by (simp add: sim_platform_def)

text \<open>
  Claim C3, at an input where the code departs from it. A verified response with the
  update flag set and a trusted url of 301 bytes makes \<^verbatim>\<open>checkOTAUpdate\<close>, called with
  the buffer of 256 bytes of \<^verbatim>\<open>checkAndPerformOTA\<close>, return SUCCESS with the first 255
  bytes of the url, which is not the url of the response, and \<^verbatim>\<open>checkAndPerformOTA\<close>
  starts the updater on that shortened url.
\<close>

theorem long_url_is_truncated:
  "map_option fst (checkOTAUpdate
       (sim_platform [(''{}'', sim_signed ((''url'', JString sim_long_url) # sim_fields))] sim_mac)
       sim_pota (Some []) 256 (sim_world ''{}'')) = Some (SUCCESS, Some (take 255 sim_long_url))
   \<and> take 255 sim_long_url \<noteq> sim_long_url
   \<and> map_option (\<lambda>r. (fst r, last (calls (snd r)))) (checkAndPerformOTA
       (sim_platform [(''{}'', sim_signed ((''url'', JString sim_long_url) # sim_fields))] sim_mac)
       sim_pota (sim_world ''{}'')) = Some (SUCCESS, Update (take 255 sim_long_url))"
proof -
  let ?ms = "(''url'', JString sim_long_url) # sim_fields"
  let ?doc = "sim_signed ?ms"
  let ?P = "sim_platform [(''{}'', ?doc)] sim_mac"
  let ?r = "extract_fields ?doc"
  have sz: "(256::nat) \<noteq> 0" by simp
  note ts = extract_timestamp_range [of ?doc, THEN conjunct1] extract_timestamp_range [of ?doc, THEN conjunct2]
  have msg: "response_message ?r = response_message (extract_fields (JObject ?ms))"
    unfolding sim_signed_fields response_message_token ..
  have e: "r_errorMsg ?r = []"
    by (simp add: sim_signed_def extract_fields_def member_def sim_fields_def or_cstr_def)
  have l: "length (response_message ?r) < 512"
    unfolding msg
    by (simp add: length_response_message extract_fields_def member_def sim_fields_def
          or_cstr_def or_bool_def or_int_def dec_int_1000 sim_long_url_def)
  have h: "length (hmac_sha256 ?P ''s3cr3t'' (response_message ?r)) = 32"
    by (simp add: sim_hmac_platform length_sim_hmac)
  have tok: "r_server_token ?r = hex_encode (hmac_sha256 ?P ''s3cr3t'' (response_message ?r))"
    unfolding msg sim_hmac_platform by (simp add: sim_signed_fields)
  have u: "r_update ?r"
    by (simp add: sim_signed_def extract_fields_def member_def sim_fields_def or_bool_def)
  have url: "r_url ?r = sim_long_url"
    by (simp add: sim_signed_def extract_fields_def member_def or_cstr_def)
  have pre: "take 30 sim_long_url = trusted_prefix"
    by (simp add: sim_long_url_def trusted_prefix_def)
  have len: "length sim_long_url = 301"
    by (simp add: sim_long_url_def)
  have v: "verify_response ?P ''s3cr3t'' 256 ?r w =
             ((SUCCESS, take 255 sim_long_url), log_step CompareToken (log_step GenerateServerToken w))" for w
    using verify_response_short [OF ts e l h, of 256 w] by (simp add: tok u url pre)
  obtain w6 where run: "checkOTAUpdate ?P sim_pota (Some []) 256 (sim_world ''{}'') =
      Some ((SUCCESS, Some (take 255 sim_long_url)),
            log_step CompareToken (log_step GenerateServerToken (log_step (DeserializeJson ''{}'') w6)))"
    using sim_run [OF sz, of ?doc] by (auto simp: v)
  have cut: "take 255 sim_long_url \<noteq> sim_long_url"
  proof
    assume "take 255 sim_long_url = sim_long_url"
    then have "length (take 255 sim_long_url) = length sim_long_url" by simp
    then show False by (simp add: len)
  qed
  have ne: "take 255 sim_long_url \<noteq> []"
    using len by auto
  have perf: "map_option (\<lambda>r. (fst r, last (calls (snd r)))) (checkAndPerformOTA ?P sim_pota (sim_world ''{}'')) =
      Some (SUCCESS, Update (take 255 sim_long_url))"
    using ne by (simp add: checkAndPerformOTA_def sim_client run performOTA_def strlen_def
          log_step_def sim_ota)
  from run cut perf show ?thesis by simp
qed

section \<open>Defaults of the parsed response\<close>

lemma or_bool_default:
  "\<forall>v. m = Some v \<longrightarrow> \<not> field_typed ''update'' v \<Longrightarrow> or_bool m False = False"
  by (auto simp: or_bool_def field_typed_def split: option.splits json.splits)

lemma or_int_default:
  "\<forall>v. m = Some v \<longrightarrow> \<not> field_typed ''timestamp'' v \<Longrightarrow> or_int m 0 = 0"
  by (auto simp: or_int_def field_typed_def split: option.splits json.splits)

lemma or_cstr_default:
  "k \<noteq> ''update'' \<Longrightarrow> k \<noteq> ''timestamp'' \<Longrightarrow> \<forall>v. m = Some v \<longrightarrow> \<not> field_typed k v \<Longrightarrow>
   or_cstr m [] = []"
  by (auto simp: or_cstr_def field_typed_def split: option.splits json.splits)

lemma or_default_values:
  "or_bool (Some (JBool False)) False = False"
  "or_int (Some (JInteger 0)) 0 = 0"
  "or_cstr (Some (JString [])) [] = []"
  by (simp_all add: or_bool_def or_int_def or_cstr_def)

lemma extract_object:
  "extract_fields (JObject ms) =
     \<lparr>r_update = or_bool (map_of ms ''update'') False,
      r_url = or_cstr (map_of ms ''url'') [],
      r_version = or_cstr (map_of ms ''version'') [],
      r_checksum = or_cstr (map_of ms ''checksum'') [],
      r_protocol_version = or_cstr (map_of ms ''protocol_version'') [],
      r_notes = or_cstr (map_of ms ''notes'') [],
      r_server_token = or_cstr (map_of ms ''server_token'') [],
      r_errorMsg = or_cstr (map_of ms ''error'') [],
      r_timestampValue = or_int (map_of ms ''timestamp'') 0\<rparr>"
  by (simp add: extract_fields_def member_def)

lemma response_fields_disj:
  assumes "k \<in> set response_fields"
  shows "k = ''update'' \<or> k = ''url'' \<or> k = ''version'' \<or> k = ''checksum'' \<or> k = ''protocol_version''
      \<or> k = ''notes'' \<or> k = ''server_token'' \<or> k = ''error'' \<or> k = ''timestamp''"
  using assms unfolding response_fields_def by (simp only: list.set insert_iff empty_iff simp_thms)

lemma response_fields_cases:
  assumes "k \<in> set response_fields"
  obtains "k = ''update''" | "k = ''timestamp''"
    | "k = ''url''" | "k = ''version''" | "k = ''checksum''" | "k = ''protocol_version''"
    | "k = ''notes''" | "k = ''server_token''" | "k = ''error''"
  using response_fields_disj [OF assms] by (elim disjE) (erule that)+

lemma extract_fields_default:
  assumes "k \<in> set response_fields"
    and "\<forall>v. map_of ms k = Some v \<longrightarrow> \<not> field_typed k v"
  shows "extract_fields (JObject ms) = extract_fields (JObject ((k, field_default k) # ms))
       \<and> field_value k (extract_fields (JObject ms)) = field_default k"
  using assms(1)
proof (cases rule: response_fields_cases)
  case 1
  have d: "or_bool (map_of ms ''update'') False = False"
    using assms(2) unfolding 1 by (rule or_bool_default)
  show ?thesis
    unfolding 1 extract_object field_default_def field_value_def
    by (simp add: d or_default_values)
next
  case 2
  have d: "or_int (map_of ms ''timestamp'') 0 = 0"
    using assms(2) unfolding 2 by (rule or_int_default)
  show ?thesis
    unfolding 2 extract_object field_default_def field_value_def
    by (simp add: d or_default_values)
next
  case 3
  have d: "or_cstr (map_of ms ''url'') [] = []"
    using assms(2) unfolding 3 by (intro or_cstr_default) simp_all
  show ?thesis
    unfolding 3 extract_object field_default_def field_value_def
    by (simp add: d or_default_values)
next
  case 4
  have d: "or_cstr (map_of ms ''version'') [] = []"
    using assms(2) unfolding 4 by (intro or_cstr_default) simp_all
  show ?thesis
    unfolding 4 extract_object field_default_def field_value_def
    by (simp add: d or_default_values)
next
  case 5
  have d: "or_cstr (map_of ms ''checksum'') [] = []"
    using assms(2) unfolding 5 by (intro or_cstr_default) simp_all
  show ?thesis
    unfolding 5 extract_object field_default_def field_value_def
    by (simp add: d or_default_values)
next
  case 6
  have d: "or_cstr (map_of ms ''protocol_version'') [] = []"
    using assms(2) unfolding 6 by (intro or_cstr_default) simp_all
  show ?thesis
    unfolding 6 extract_object field_default_def field_value_def
    by (simp add: d or_default_values)
next
  case 7
  have d: "or_cstr (map_of ms ''notes'') [] = []"
    using assms(2) unfolding 7 by (intro or_cstr_default) simp_all
  show ?thesis
    unfolding 7 extract_object field_default_def field_value_def
    by (simp add: d or_default_values)
next
  case 8
  have d: "or_cstr (map_of ms ''server_token'') [] = []"
    using assms(2) unfolding 8 by (intro or_cstr_default) simp_all
  show ?thesis
    unfolding 8 extract_object field_default_def field_value_def
    by (simp add: d or_default_values)
next
  case 9
  have d: "or_cstr (map_of ms ''error'') [] = []"
    using assms(2) unfolding 9 by (intro or_cstr_default) simp_all
  show ?thesis
    unfolding 9 extract_object field_default_def field_value_def
    by (simp add: d or_default_values)
qed

text \<open>
  Claim C8. In a parsed JSON object, a member among update, url, version, checksum,
  protocol_version, notes, server_token, error and timestamp that is missing or not of
  the type of its field is read as the default of the field (false for update, the empty
  string for the strings, 0 for timestamp), and the check goes on exactly as it does on
  the object in which that member is set to the default.
\<close>

theorem missing_fields_default:
  assumes "k \<in> set response_fields"
    and "\<forall>v. map_of ms k = Some v \<longrightarrow> \<not> field_typed k v"
  shows "field_value k (extract_fields (JObject ms)) = field_default k
       \<and> (m_client this = Some cl \<and> outOTAUrlSize \<noteq> 0
            \<and> exchange P this w = Some (Inr buffer, w6)
            \<and> deserializeJson P buffer = Some (JObject ms) \<longrightarrow>
          checkOTAUpdate P this (Some out) outOTAUrlSize w =
            Some (case verify_response P (m_serverSecret this) outOTAUrlSize
                         (extract_fields (JObject ((k, field_default k) # ms)))
                         (log_step (DeserializeJson buffer) w6) of
                    ((err, url), w7) \<Rightarrow> ((err, Some url), w7)))"
proof (intro conjI impI)
  show "field_value k (extract_fields (JObject ms)) = field_default k"
    using extract_fields_default [OF assms] by (rule conjunct2)
next
  assume h: "m_client this = Some cl \<and> outOTAUrlSize \<noteq> 0
            \<and> exchange P this w = Some (Inr buffer, w6)
            \<and> deserializeJson P buffer = Some (JObject ms)"
  have same: "extract_fields (JObject ms) = extract_fields (JObject ((k, field_default k) # ms))"
    using extract_fields_default [OF assms] by (rule conjunct1)
  from h have "checkOTAUpdate P this (Some out) outOTAUrlSize w =
            Some (case verify_response P (m_serverSecret this) outOTAUrlSize
                         (extract_fields (JObject ms))
                         (log_step (DeserializeJson buffer) w6) of
                    ((err, url), w7) \<Rightarrow> ((err, Some url), w7))"
    by (intro checkOTAUpdate_parsed) simp_all
  then show "checkOTAUpdate P this (Some out) outOTAUrlSize w =
            Some (case verify_response P (m_serverSecret this) outOTAUrlSize
                         (extract_fields (JObject ((k, field_default k) # ms)))
                         (log_step (DeserializeJson buffer) w6) of
                    ((err, url), w7) \<Rightarrow> ((err, Some url), w7))"
    by (simp only: same)
qed

theorem missing_fields_default_witness:
  "field_value ''update'' (extract_fields (JObject [(''update'', JString ''true''), (''url'', JNull)])) =
     JBool False
   \<and> map_option fst (checkOTAUpdate
        (sim_platform [(''{}'', JObject [(''update'', JString ''true''), (''url'', JNull)])] sim_mac)
        sim_pota (Some []) 256 (sim_world ''{}'')) = Some (TOKEN_MISMATCH, Some [])"
proof -
  let ?ms = "[(''update'', JString ''true''), (''url'', JNull)]"
  let ?P = "sim_platform [(''{}'', JObject ?ms)] sim_mac"
  let ?r = "extract_fields (JObject ((''update'', field_default ''update'') # ?ms))"
  have k: "''update'' \<in> set response_fields"
    by (simp add: response_fields_def)
  have bad: "\<forall>v. map_of ?ms ''update'' = Some v \<longrightarrow> \<not> field_typed ''update'' v"
    by (simp add: field_typed_def)
  have sz: "(256::nat) \<noteq> 0" by simp
  obtain w6 where ex: "exchange ?P sim_pota (sim_world ''{}'') = Some (Inr ''{}'', w6)"
    using sim_exchange_world by blast
  note inst = missing_fields_default [OF k bad, where this = sim_pota and cl = Static_Client
      and outOTAUrlSize = 256 and P = ?P and w = "sim_world ''{}''" and buffer = "''{}''"
      and ?w6.0 = w6 and out = "[]"]
  have val: "field_value ''update'' (extract_fields (JObject ?ms)) = JBool False"
    using inst [THEN conjunct1] by (simp add: field_default_def)
  have run: "checkOTAUpdate ?P sim_pota (Some []) 256 (sim_world ''{}'') =
            Some (case verify_response ?P (m_serverSecret sim_pota) 256 ?r
                         (log_step (DeserializeJson ''{}'') w6) of
                    ((err, url), w7) \<Rightarrow> ((err, Some url), w7))"
    using inst [THEN conjunct2, rule_format, OF conjI [OF sim_client conjI [OF sz conjI [OF ex sim_parse]]]] .
  note ts = extract_timestamp_range [of "JObject ((''update'', field_default ''update'') # ?ms)", THEN conjunct1]
            extract_timestamp_range [of "JObject ((''update'', field_default ''update'') # ?ms)", THEN conjunct2]
  have e: "r_errorMsg ?r = []"
    by (simp add: extract_fields_def member_def or_cstr_def)
  have l: "length (response_message ?r) < 512"
    by (simp add: length_response_message extract_fields_def member_def field_default_def
          or_cstr_def or_bool_def or_int_def dec_int_def dec_nat.simps)
  have h: "length (hmac_sha256 ?P (m_serverSecret sim_pota) (response_message ?r)) = 32"
    by (simp add: sim_hmac_platform length_sim_hmac)
  have t: "r_server_token ?r = []"
    by (simp add: extract_fields_def member_def or_cstr_def)
  have "r_server_token ?r \<noteq> hex_encode (hmac_sha256 ?P (m_serverSecret sim_pota) (response_message ?r))"
    unfolding t sim_hmac_platform by (rule sim_token_nonempty)
  then have v: "verify_response ?P (m_serverSecret sim_pota) 256 ?r (log_step (DeserializeJson ''{}'') w6) =
      ((TOKEN_MISMATCH, []), log_step CompareToken (log_step GenerateServerToken (log_step (DeserializeJson ''{}'') w6)))"
    using verify_response_short [OF ts e l h] by simp
  from run have "map_option fst (checkOTAUpdate ?P sim_pota (Some []) 256 (sim_world ''{}'')) =
      Some (TOKEN_MISMATCH, Some [])"
    by (simp add: v)
  with val show ?thesis by simp
qed

end
